theory Spec2Isabelle
  imports Complex_Main "HOL-Library.Word"
begin

section \<open>JavaScript numbers\<close>

text \<open>
  The visualizer computes with JavaScript numbers. The model uses exact rationals for the
  finite values and keeps the three non-finite values a division can produce, so that
  a division by zero is visible in the result: \<open>0/0\<close> is \<open>NaN\<close>, \<open>x/0\<close> is an infinity.
  Rounding of the binary floating-point format and the negative zero are not modelled.
\<close>

datatype jsnum = Fin rat | PInf | NInf | NaN

fun jssign :: "jsnum \<Rightarrow> rat" where
  "jssign (Fin x) = sgn x"
| "jssign PInf = 1"
| "jssign NInf = - 1"
| "jssign NaN = 0"

definition ofsign :: "rat \<Rightarrow> jsnum" where
  "ofsign s = (if 0 < s then PInf else if s < 0 then NInf else NaN)"

fun jsneg :: "jsnum \<Rightarrow> jsnum" where
  "jsneg (Fin x) = Fin (- x)"
| "jsneg PInf = NInf"
| "jsneg NInf = PInf"
| "jsneg NaN = NaN"

fun jsadd :: "jsnum \<Rightarrow> jsnum \<Rightarrow> jsnum" where
  "jsadd (Fin x) (Fin y) = Fin (x + y)"
| "jsadd NaN b = NaN"
| "jsadd a NaN = NaN"
| "jsadd PInf NInf = NaN"
| "jsadd NInf PInf = NaN"
| "jsadd PInf b = PInf"
| "jsadd NInf b = NInf"
| "jsadd a PInf = PInf"
| "jsadd a NInf = NInf"

definition jssub :: "jsnum \<Rightarrow> jsnum \<Rightarrow> jsnum" where
  "jssub a b = jsadd a (jsneg b)"

fun jsmul :: "jsnum \<Rightarrow> jsnum \<Rightarrow> jsnum" where
  "jsmul (Fin x) (Fin y) = Fin (x * y)"
| "jsmul NaN b = NaN"
| "jsmul a NaN = NaN"
| "jsmul a b = ofsign (jssign a * jssign b)"

text \<open>Division by a count (an array length or a difference of two indices).\<close>

fun jsdivn :: "jsnum \<Rightarrow> nat \<Rightarrow> jsnum" where
  "jsdivn (Fin x) n = (if n = 0 then ofsign x else Fin (x / of_nat n))"
| "jsdivn PInf n = PInf"
| "jsdivn NInf n = NInf"
| "jsdivn NaN n = NaN"

text \<open>\<open>a < b\<close>; every comparison with \<open>NaN\<close> is false.\<close>

fun jsless :: "jsnum \<Rightarrow> jsnum \<Rightarrow> bool" where
  "jsless (Fin x) (Fin y) = (x < y)"
| "jsless NaN b = False"
| "jsless a NaN = False"
| "jsless a PInf = (a \<noteq> PInf)"
| "jsless NInf b = (b \<noteq> NInf)"
| "jsless a b = False"

text \<open>\<open>Math.min(a, b)\<close>.\<close>

definition jsmin :: "jsnum \<Rightarrow> jsnum \<Rightarrow> jsnum" where
  "jsmin a b = (if a = NaN \<or> b = NaN then NaN else if jsless b a then b else a)"

text \<open>\<open>a || b\<close> on numbers: \<open>0\<close> and \<open>NaN\<close> are falsy.\<close>

definition jsor :: "jsnum \<Rightarrow> jsnum \<Rightarrow> jsnum" where
  "jsor a b = (if a = Fin 0 \<or> a = NaN then b else a)"

text \<open>Division by a finite number; a divisor 0 is the positive zero.\<close>

fun jsdivr :: "jsnum \<Rightarrow> rat \<Rightarrow> jsnum" where
  "jsdivr (Fin x) y = (if y = 0 then ofsign x else Fin (x / y))"
| "jsdivr PInf y = (if 0 \<le> y then PInf else NInf)"
| "jsdivr NInf y = (if 0 \<le> y then NInf else PInf)"
| "jsdivr NaN y = NaN"

text \<open>
  Where a product is truncated to an integer by \<open>Math.floor\<close>, the rounding of the
  double-precision format decides the result, so these sums and products are rounded as
  the format rounds them: to the nearest number with a significand of 53 bits, ties to the
  even significand, with the spacing of the subnormal numbers below \<open>2^-1022\<close>. The
  arguments are the exact values of doubles; magnitudes stay below the overflow threshold.
  \<open>floorLog2 x\<close> is the exponent \<open>e\<close> with \<open>2^e \<le> x < 2^(e+1)\<close> of a positive \<open>x\<close>.
\<close>

function log2Up :: "rat \<Rightarrow> int" where
  "log2Up x = (if 2 \<le> x then log2Up (x / 2) + 1 else 0)"
  by pat_completeness auto
termination
proof (relation "measure (\<lambda>x. nat \<lfloor>x\<rfloor>)")
  show "wf (measure (\<lambda>x::rat. nat \<lfloor>x\<rfloor>))" by simp
next
  fix x :: rat
  assume x: "2 \<le> x"
  have "x / 2 \<le> x - 1" using x by simp
  then have "\<lfloor>x / 2\<rfloor> \<le> \<lfloor>x - 1\<rfloor>" by (rule floor_mono)
  moreover have "\<lfloor>x - 1\<rfloor> = \<lfloor>x\<rfloor> - 1" by simp
  moreover have "2 \<le> \<lfloor>x\<rfloor>" using x by (simp add: le_floor_iff)
  ultimately show "(x / 2, x) \<in> measure (\<lambda>x. nat \<lfloor>x\<rfloor>)" by simp
qed

function log2Down :: "rat \<Rightarrow> int" where
  "log2Down x = (if 0 < x \<and> x < 1 then log2Down (x * 2) - 1 else 0)"
  by pat_completeness auto
termination
proof (relation "measure (\<lambda>x. nat \<lceil>1 / x\<rceil>)")
  show "wf (measure (\<lambda>x::rat. nat \<lceil>1 / x\<rceil>))" by simp
next
  fix x :: rat
  assume x: "0 < x \<and> x < 1"
  then have y: "1 < 1 / x" by simp
  then have c: "2 \<le> \<lceil>1 / x\<rceil>" by (simp add: le_ceiling_iff)
  have "1 / (x * 2) = (1 / x) / 2" by simp
  also have "\<dots> \<le> of_int \<lceil>1 / x\<rceil> / 2" by (simp add: divide_right_mono)
  also have "\<dots> \<le> of_int (\<lceil>1 / x\<rceil> - 1)" using c by simp
  finally have "\<lceil>1 / (x * 2)\<rceil> \<le> \<lceil>1 / x\<rceil> - 1" by (simp only: ceiling_le_iff)
  with c x show "(x * 2, x) \<in> measure (\<lambda>x. nat \<lceil>1 / x\<rceil>)" by simp
qed

declare log2Up.simps [simp del] log2Down.simps [simp del]

definition floorLog2 :: "rat \<Rightarrow> int" where
  "floorLog2 x = (if 1 \<le> x then log2Up x else log2Down x)"

definition pow2 :: "int \<Rightarrow> rat" where
  "pow2 e = (if 0 \<le> e then 2 ^ nat e else 1 / 2 ^ nat (- e))"

definition roundHalfEven :: "rat \<Rightarrow> int" where
  "roundHalfEven x =
     (let f = \<lfloor>x\<rfloor>; r = x - of_int f
      in if r < 1 / 2 then f else if 1 / 2 < r then f + 1 else if even f then f else f + 1)"

definition roundDouble :: "rat \<Rightarrow> rat" where
  "roundDouble x =
     (if x = 0 then 0
      else let e = max (floorLog2 \<bar>x\<bar>) (- 1022);
               ulp = pow2 (e - 52)
           in of_int (roundHalfEven (x / ulp)) * ulp)"

text \<open>\<open>a + b\<close> and \<open>a * b\<close> on doubles.\<close>

definition dadd :: "rat \<Rightarrow> rat \<Rightarrow> rat" where
  "dadd a b = roundDouble (a + b)"

definition dmul :: "rat \<Rightarrow> rat \<Rightarrow> rat" where
  "dmul a b = roundDouble (a * b)"

text \<open>One sample of a \<open>Uint8Array\<close> spectrum, normalised: \<open>data[i] / 255\<close>.\<close>

definition level :: "8 word \<Rightarrow> rat" where
  "level w = of_nat (unat w) / 255"

section \<open>Beat detector\<close>

text \<open>
  \<open>this.beatDetectionVars\<close>, as \<open>createWaveVisualizer\<close> builds it. The energies and beat
  intensities are results of divisions; the times and constants are finite numbers.
\<close>

record beatVars =
  energyHistory :: "jsnum list"
  beatThreshold :: rat
  lastBeatTime :: rat
  beatHoldTime :: rat
  bassEnergy :: jsnum
  trebleEnergy :: jsnum
  bassBeat :: jsnum
  trebleBeat :: jsnum
  emitCooldown :: rat

definition initBeatDetectionVars :: beatVars where
  "initBeatDetectionVars =
     \<lparr> energyHistory = replicate 30 (Fin 0),
       beatThreshold = 3 / 2,
       lastBeatTime = 0,
       beatHoldTime = 1 / 5,
       bassEnergy = Fin 0,
       trebleEnergy = Fin 0,
       bassBeat = Fin 0,
       trebleBeat = Fin 0,
       emitCooldown = 0 \<rparr>"

text \<open>
  \<open>for (let i = lo; i < hi; i++) e += freqData[i] / 255.0; e /= n\<close>. The two loops of
  \<open>detectBeats\<close> stay inside the array: \<open>hi\<close> is at most its length.
\<close>

definition sumLevels :: "8 word list \<Rightarrow> nat \<Rightarrow> nat \<Rightarrow> rat" where
  "sumLevels freqData lo hi = fold (\<lambda>i e. e + level (freqData ! i)) [lo..<hi] 0"

text \<open>
  \<open>Math.floor(freqData.length * 0.2)\<close> and \<open>Math.floor(freqData.length * 0.6)\<close>, in exact
  arithmetic.
\<close>

definition bassRangeOf :: "8 word list \<Rightarrow> nat" where
  "bassRangeOf freqData = length freqData div 5"

definition trebleStartOf :: "8 word list \<Rightarrow> nat" where
  "trebleStartOf freqData = (3 * length freqData) div 5"

definition bassEnergyOf :: "8 word list \<Rightarrow> jsnum" where
  "bassEnergyOf freqData =
     jsdivn (Fin (sumLevels freqData 0 (bassRangeOf freqData))) (bassRangeOf freqData)"

definition trebleEnergyOf :: "8 word list \<Rightarrow> jsnum" where
  "trebleEnergyOf freqData =
     jsdivn (Fin (sumLevels freqData (trebleStartOf freqData) (length freqData)))
       (length freqData - trebleStartOf freqData)"

text \<open>\<open>energyHistory.push(e); if (energyHistory.length > 30) energyHistory.shift()\<close>.\<close>

definition pushEnergy :: "jsnum \<Rightarrow> jsnum list \<Rightarrow> jsnum list" where
  "pushEnergy e h = (let h1 = h @ [e] in if 30 < length h1 then tl h1 else h1)"

text \<open>\<open>energyHistory.reduce((sum, val) => sum + val, 0) / energyHistory.length\<close>.\<close>

definition averageEnergyOf :: "jsnum list \<Rightarrow> jsnum" where
  "averageEnergyOf h = jsdivn (fold (\<lambda>val sum. jsadd sum val) h (Fin 0)) (length h)"

text \<open>
  The condition of the bass beat, evaluated on the history after the push:
  \<open>bassEnergy > averageEnergy * beat.beatThreshold &&
   currentTime - beat.lastBeatTime > beat.beatHoldTime\<close>.
\<close>

definition bassBeatFires :: "8 word list \<Rightarrow> rat \<Rightarrow> beatVars \<Rightarrow> bool" where
  "bassBeatFires freqData currentTime beat =
     (jsless
        (jsmul (averageEnergyOf (pushEnergy (bassEnergyOf freqData) (energyHistory beat)))
           (Fin (beatThreshold beat)))
        (bassEnergyOf freqData)
      \<and> beatHoldTime beat < currentTime - lastBeatTime beat)"

text \<open>
  \<open>detectBeats(freqData, deltaTime)\<close>. \<open>currentTime\<close> is what \<open>this.clock.getElapsedTime()\<close>
  returns during the call, and \<open>pow\<close> is \<open>Math.pow\<close>.
\<close>

definition detectBeats ::
  "(rat \<Rightarrow> rat \<Rightarrow> rat) \<Rightarrow> 8 word list \<Rightarrow> rat \<Rightarrow> rat \<Rightarrow> beatVars \<Rightarrow> beatVars" where
  "detectBeats pow freqData deltaTime currentTime beat =
     (let bassE = bassEnergyOf freqData;
          trebleE = trebleEnergyOf freqData;
          beat1 = beat\<lparr> bassEnergy :=
                          jsadd (jsmul (bassEnergy beat) (Fin (9 / 10))) (jsmul bassE (Fin (1 / 10))),
                        trebleEnergy :=
                          jsadd (jsmul (trebleEnergy beat) (Fin (9 / 10))) (jsmul trebleE (Fin (1 / 10))),
                        energyHistory := pushEnergy bassE (energyHistory beat) \<rparr>;
          beat2 = (if bassBeatFires freqData currentTime beat
                   then beat1\<lparr> lastBeatTime := currentTime,
                               bassBeat := jsmin (jsmul bassE (Fin 2)) (Fin 1) \<rparr>
                   else beat1\<lparr> bassBeat :=
                                 jsmul (bassBeat beat1) (Fin (pow (7 / 10) (deltaTime * 10))) \<rparr>)
      in if jsless (jsmul (trebleEnergy beat2) (Fin (13 / 10))) trebleE
         then beat2\<lparr> trebleBeat := jsmin (jsmul trebleE (Fin (3 / 2))) (Fin 1) \<rparr>
         else beat2\<lparr> trebleBeat :=
                       jsmul (trebleBeat beat2) (Fin (pow (1 / 2) (deltaTime * 15))) \<rparr>)"

text \<open>
  One tick of the detector is a spectrum, the \<open>deltaTime\<close> argument and the clock reading.
  \<open>runTicks\<close> applies \<open>detectBeats\<close> once per tick, in order.
\<close>

type_synonym tick = "8 word list \<times> rat \<times> rat"

definition tickData :: "tick \<Rightarrow> 8 word list" where
  "tickData t = fst t"

definition tickTime :: "tick \<Rightarrow> rat" where
  "tickTime t = snd (snd t)"

definition detectTick :: "(rat \<Rightarrow> rat \<Rightarrow> rat) \<Rightarrow> tick \<Rightarrow> beatVars \<Rightarrow> beatVars" where
  "detectTick pow t beat = detectBeats pow (fst t) (fst (snd t)) (snd (snd t)) beat"

definition runTicks :: "(rat \<Rightarrow> rat \<Rightarrow> rat) \<Rightarrow> tick list \<Rightarrow> beatVars \<Rightarrow> beatVars" where
  "runTicks pow ticks beat = fold (detectTick pow) ticks beat"

section \<open>Band levels\<close>

text \<open>
  The level computation at the start of \<open>updateVisualizer\<close>: one pass over \<open>dataArray\<close>
  that sums all samples, the samples below \<open>Math.floor(length / 3)\<close> and the samples from
  \<open>Math.floor(length * 2 / 3)\<close> on, and three divisions. The result is
  \<open>(averageLevel, lowFreqAvg, highFreqAvg)\<close>. The bounds are computed in exact arithmetic,
  as integer quotients; the loop takes its bound \<open>n\<close> as a parameter and is run with the
  length of the array.
\<close>

definition levelSums :: "8 word list \<Rightarrow> nat \<Rightarrow> rat \<times> rat \<times> rat" where
  "levelSums dataArray n =
     fold (\<lambda>i (averageLevel, lowFreqAvg, highFreqAvg).
             let lvl = level (dataArray ! i) in
             if i < length dataArray div 3
             then (averageLevel + lvl, lowFreqAvg + lvl, highFreqAvg)
             else if (length dataArray * 2) div 3 \<le> i
             then (averageLevel + lvl, lowFreqAvg, highFreqAvg + lvl)
             else (averageLevel + lvl, lowFreqAvg, highFreqAvg))
       [0..<n] (0, 0, 0)"

definition audioLevels :: "8 word list \<Rightarrow> jsnum \<times> jsnum \<times> jsnum" where
  "audioLevels dataArray =
     (case levelSums dataArray (length dataArray) of
        (averageLevel, lowFreqAvg, highFreqAvg) \<Rightarrow>
          (jsdivn (Fin averageLevel) (length dataArray),
           jsdivn (Fin lowFreqAvg) (length dataArray div 3),
           jsdivn (Fin highFreqAvg) (length dataArray - (length dataArray * 2) div 3)))"

text \<open>
  The band computation of \<open>updateShadersVisualizer\<close>, with the bounds
  \<open>Math.floor(length * 0.2)\<close> and \<open>Math.floor(length * 0.6)\<close>. The sums are
  \<open>(lowFreq, midFreq, highFreq, overall)\<close>.
\<close>

definition bandSums :: "8 word list \<Rightarrow> nat \<Rightarrow> rat \<times> rat \<times> rat \<times> rat" where
  "bandSums audioData n =
     fold (\<lambda>i (lowFreq, midFreq, highFreq, overall).
             let normalized = level (audioData ! i) in
             if i < length audioData div 5
             then (lowFreq + normalized, midFreq, highFreq, overall + normalized)
             else if i < (3 * length audioData) div 5
             then (lowFreq, midFreq + normalized, highFreq, overall + normalized)
             else (lowFreq, midFreq, highFreq + normalized, overall + normalized))
       [0..<n] (0, 0, 0, 0)"

definition shaderBands :: "8 word list \<Rightarrow> jsnum \<times> jsnum \<times> jsnum \<times> jsnum" where
  "shaderBands audioData =
     (let lowMidBound = length audioData div 5;
          midHighBound = (3 * length audioData) div 5
      in case bandSums audioData (length audioData) of
           (lowFreq, midFreq, highFreq, overall) \<Rightarrow>
             (jsdivn (Fin lowFreq) lowMidBound,
              jsdivn (Fin midFreq) (midHighBound - lowMidBound),
              jsdivn (Fin highFreq) (length audioData - midHighBound),
              jsdivn (Fin overall) (length audioData)))"

text \<open>
  \<open>smoothed = smoothed || raw; smoothed += (raw - smoothed) * smoothingFactor\<close> with the
  factor 0.1.
\<close>

definition smoothBand :: "jsnum \<Rightarrow> jsnum \<Rightarrow> jsnum" where
  "smoothBand smoothed raw =
     (let s0 = jsor smoothed raw in jsadd s0 (jsmul (jssub raw s0) (Fin (1 / 10))))"

section \<open>Style controller\<close>

text \<open>
  The objects a style puts into the scene, the two camera classes, and the part of the
  \<open>Visualizer\<close> object the style switch reads and writes. A camera carries the number of
  the allocation that made it, so that \<open>orbitControls.object\<close> can refer to one.
\<close>

type_synonym vec3 = "rat \<times> rat \<times> rat"

datatype obj =
    InitAmbientLight | SunLight
  | Bar nat
  | PointsCloud | PointsAmbientLight | PointsDirectionalLight
  | GroundPlane | Starfield | Tower nat nat
  | ShaderPlane

datatype projection =
    PerspectiveCamera rat rat rat rat
  | OrthographicCamera rat rat rat rat rat rat

record camera =
  camId :: nat
  projection :: projection
  position :: vec3
  lookAt :: vec3

record orbit =
  object :: nat
  enabled :: bool
  target :: vec3

record uniforms =
  time :: rat
  resolution :: "rat \<times> rat"
  audioLevel :: jsnum
  audioLowFreq :: jsnum
  audioHighFreq :: jsnum

text \<open>
  The host: the window size, and which geometry and material constructors of the
  rendering library raise an exception when called.
\<close>

datatype resource =
    BoxGeometry | PlaneGeometry | BufferGeometry
  | MeshPhongMaterial | MeshStandardMaterial | ShaderMaterial

record host =
  innerWidth :: rat
  innerHeight :: rat
  aspect :: rat
  fails :: "resource \<Rightarrow> bool"

record visualizer =
  scene :: "obj list"
  background :: nat
  camera :: camera
  originalCamera :: "camera option"
  nextId :: nat
  analyser :: bool
  bars :: "obj list"
  particles :: "obj list"
  towers :: "obj list"
  groundPlane :: "obj option"
  cloudLayers :: "obj list"
  starfield :: "obj option"
  pointsMesh :: "obj option"
  currentStyle :: string
  orbitControls :: orbit
  shaderPlane :: "obj option"
  shaderMaterial :: "uniforms option"
  shaderTime :: rat
  audioDataArray :: "8 word list option"
  lowFreqSmoothed :: jsnum
  midFreqSmoothed :: jsnum
  highFreqSmoothed :: jsnum
  overallSmoothed :: jsnum
  resizeHandler :: bool
  towerGridSettings :: bool
  renderCount :: nat

text \<open>
  A call either returns or raises; both leave a state behind, since the assignments made
  before an exception stay.
\<close>

datatype 'a outcome = Normal 'a | Raised 'a

fun stateOf :: "'a outcome \<Rightarrow> 'a" where
  "stateOf (Normal s) = s"
| "stateOf (Raised s) = s"

fun isRaised :: "'a outcome \<Rightarrow> bool" where
  "isRaised (Normal s) = False"
| "isRaised (Raised s) = True"

text \<open>Statements in sequence: the first one that raises ends the sequence.\<close>

fun steps :: "('a \<Rightarrow> 'a outcome) list \<Rightarrow> 'a \<Rightarrow> 'a outcome" where
  "steps [] s = Normal s"
| "steps (f # fs) s = (case f s of Normal s' \<Rightarrow> steps fs s' | Raised s' \<Rightarrow> Raised s')"

definition assign :: "('a \<Rightarrow> 'a) \<Rightarrow> 'a \<Rightarrow> 'a outcome" where
  "assign f s = Normal (f s)"

definition construct :: "host \<Rightarrow> resource \<Rightarrow> 'a \<Rightarrow> 'a outcome" where
  "construct h r s = (if fails h r then Raised s else Normal s)"

definition tryCatch :: "('a \<Rightarrow> 'a outcome) \<Rightarrow> ('a \<Rightarrow> 'a outcome) \<Rightarrow> 'a \<Rightarrow> 'a outcome" where
  "tryCatch body handler s = (case body s of Normal s' \<Rightarrow> Normal s' | Raised s' \<Rightarrow> handler s')"

definition setCamera :: "vec3 \<Rightarrow> vec3 \<Rightarrow> visualizer \<Rightarrow> visualizer" where
  "setCamera p l s = s\<lparr> camera := (camera s)\<lparr> position := p, lookAt := l \<rparr> \<rparr>"

definition sceneAdd :: "obj \<Rightarrow> visualizer \<Rightarrow> visualizer" where
  "sceneAdd x s = s\<lparr> scene := scene s @ [x] \<rparr>"

definition sceneRemove :: "obj list \<Rightarrow> obj list \<Rightarrow> obj list" where
  "sceneRemove xs sc = fold remove1 xs sc"

definition clearScene :: "visualizer \<Rightarrow> visualizer" where
  "clearScene s =
     s\<lparr> scene :=
          sceneRemove (case shaderPlane s of None \<Rightarrow> [] | Some x \<Rightarrow> [x])
            (sceneRemove (case pointsMesh s of None \<Rightarrow> [] | Some x \<Rightarrow> [x])
              (sceneRemove (case starfield s of None \<Rightarrow> [] | Some x \<Rightarrow> [x])
                (sceneRemove (cloudLayers s)
                  (sceneRemove (case groundPlane s of None \<Rightarrow> [] | Some x \<Rightarrow> [x])
                    (sceneRemove (towers s)
                      (sceneRemove (particles s)
                        (sceneRemove (bars s) (scene s)))))))),
        groundPlane := None,
        cloudLayers := [],
        starfield := None,
        bars := [],
        particles := [],
        towers := [],
        background := 0x000005,
        pointsMesh := None,
        shaderPlane := None,
        shaderMaterial := None,
        shaderTime := 0,
        lowFreqSmoothed := Fin 0,
        midFreqSmoothed := Fin 0,
        highFreqSmoothed := Fin 0,
        overallSmoothed := Fin 0 \<rparr>"

text \<open>\<open>createBars\<close>: 64 bars, each a box geometry, a material and a mesh.\<close>

fun createBarsFrom :: "host \<Rightarrow> nat list \<Rightarrow> visualizer \<Rightarrow> visualizer outcome" where
  "createBarsFrom h [] s = Normal s"
| "createBarsFrom h (i # is) s =
     (if fails h BoxGeometry \<or> fails h MeshPhongMaterial then Raised s
      else createBarsFrom h is (s\<lparr> scene := scene s @ [Bar i], bars := bars s @ [Bar i] \<rparr>))"

definition createBars :: "host \<Rightarrow> visualizer \<Rightarrow> visualizer outcome" where
  "createBars h s = createBarsFrom h [0..<64] s"

definition createPointsVisualizer :: "host \<Rightarrow> visualizer \<Rightarrow> visualizer outcome" where
  "createPointsVisualizer h =
     steps [
       assign (\<lambda>s. s\<lparr> background := 0x000011 \<rparr>),
       construct h BufferGeometry,
       construct h ShaderMaterial,
       assign (\<lambda>s. sceneAdd PointsCloud (s\<lparr> pointsMesh := Some PointsCloud \<rparr>)),
       assign (sceneAdd PointsAmbientLight),
       assign (sceneAdd PointsDirectionalLight),
       assign (setCamera (0, 0, 100) (0, 0, 0)) ]"

definition createStarfield :: "host \<Rightarrow> visualizer \<Rightarrow> visualizer outcome" where
  "createStarfield h =
     steps [
       construct h BufferGeometry,
       construct h ShaderMaterial,
       assign (\<lambda>s. sceneAdd Starfield (s\<lparr> starfield := Some Starfield \<rparr>)) ]"

fun createTowersFrom :: "host \<Rightarrow> (nat \<times> nat) list \<Rightarrow> visualizer \<Rightarrow> visualizer outcome" where
  "createTowersFrom h [] s = Normal s"
| "createTowersFrom h ((x, z) # xzs) s =
     (if fails h BoxGeometry \<or> fails h MeshStandardMaterial then Raised s
      else createTowersFrom h xzs
             (s\<lparr> scene := scene s @ [Tower x z], towers := towers s @ [Tower x z] \<rparr>))"

definition createTowersVisualizer :: "host \<Rightarrow> visualizer \<Rightarrow> visualizer outcome" where
  "createTowersVisualizer h =
     steps [
       assign (\<lambda>s. s\<lparr> towers := [], cloudLayers := [], background := 0x000000,
                       towerGridSettings := True \<rparr>),
       construct h PlaneGeometry,
       construct h MeshStandardMaterial,
       assign (\<lambda>s. (sceneAdd GroundPlane s)\<lparr> groundPlane := Some GroundPlane \<rparr>),
       createStarfield h,
       createTowersFrom h (concat (map (\<lambda>x. map (\<lambda>z. (x, z)) [0..<40]) [0..<20])),
       assign (setCamera (0, 5, 15) (0, 2, 0)) ]"

text \<open>
  \<open>createShadersVisualizer\<close>: the body of the \<open>try\<close> block, then the function with its
  \<open>catch\<close>, which sets the style to bars and builds the bars.
\<close>

definition shadersBody :: "host \<Rightarrow> visualizer \<Rightarrow> visualizer outcome" where
  "shadersBody h =
     steps [
       assign (\<lambda>s. s\<lparr> shaderPlane := None, shaderMaterial := None, shaderTime := 0,
                       background := 0x000000 \<rparr>),
       assign (\<lambda>s. s\<lparr> originalCamera := Some ((camera s)\<lparr> camId := nextId s \<rparr>),
                       nextId := Suc (nextId s) \<rparr>),
       construct h PlaneGeometry,
       construct h ShaderMaterial,
       assign (\<lambda>s. s\<lparr> shaderMaterial :=
                         Some \<lparr> time = 0, resolution = (innerWidth h, innerHeight h),
                                audioLevel = Fin 0, audioLowFreq = Fin 0,
                                audioHighFreq = Fin 0 \<rparr> \<rparr>),
       assign (\<lambda>s. sceneAdd ShaderPlane (s\<lparr> shaderPlane := Some ShaderPlane \<rparr>)),
       assign (\<lambda>s. s\<lparr> camera := \<lparr> camId = nextId s,
                                   projection = OrthographicCamera (- 1) 1 1 (- 1) 0 1,
                                   position = (0, 0, 0), lookAt = (0, 0, - 1) \<rparr>,
                       nextId := Suc (nextId s) \<rparr>),
       assign (\<lambda>s. s\<lparr> audioDataArray := Some (replicate 128 0), resizeHandler := True \<rparr>) ]"

definition createShadersVisualizer :: "host \<Rightarrow> visualizer \<Rightarrow> visualizer outcome" where
  "createShadersVisualizer h =
     tryCatch (shadersBody h)
       (\<lambda>s. createBars h (s\<lparr> currentStyle := ''bars'' \<rparr>))"

text \<open>
  \<open>createVisualizer\<close>. \<open>previousStyle\<close> is read from \<open>this.currentStyle\<close> on entry. The
  \<open>switch\<close> has four cases and no default.
\<close>

definition restoreCamera :: "host \<Rightarrow> visualizer \<Rightarrow> visualizer" where
  "restoreCamera h s =
     s\<lparr> camera := \<lparr> camId = nextId s,
                    projection = PerspectiveCamera 75 (aspect h) (1 / 10) 1000,
                    position = (0, 0, 0), lookAt = (0, 0, - 1) \<rparr>,
        orbitControls := (orbitControls s)\<lparr> object := nextId s \<rparr>,
        originalCamera := None,
        nextId := Suc (nextId s) \<rparr>"

text \<open>\<open>this.renderer.render(this.scene, this.camera)\<close>, counted.\<close>

definition render :: "visualizer \<Rightarrow> visualizer" where
  "render s = s\<lparr> renderCount := Suc (renderCount s) \<rparr>"

definition createStyle :: "host \<Rightarrow> visualizer \<Rightarrow> visualizer outcome" where
  "createStyle h s =
     (if currentStyle s = ''bars'' then createBars h s
      else if currentStyle s = ''points'' then createPointsVisualizer h s
      else if currentStyle s = ''towers''
      then steps [createTowersVisualizer h, assign (setCamera (0, 2, 10) (0, 1, 0))] s
      else if currentStyle s = ''shaders'' then createShadersVisualizer h s
      else Normal s)"

definition createVisualizer :: "host \<Rightarrow> visualizer \<Rightarrow> visualizer outcome" where
  "createVisualizer h s =
     (let previousStyle = currentStyle s
      in steps [
           assign clearScene,
           assign (\<lambda>s. if previousStyle = ''shaders'' then restoreCamera h s else s),
           assign (setCamera (0, 10, 20) (0, 0, 0)),
           assign (\<lambda>s. s\<lparr> background := 0x000005,
                           orbitControls := (orbitControls s)\<lparr> enabled := False,
                                                               target := (0, 0, 0) \<rparr> \<rparr>),
           createStyle h,
           assign render ] s)"

text \<open>
  The \<open>change\<close> listener of the style selector, which \<open>setupControls\<close> registers twice:
  \<open>this.currentStyle = event.target.value; this.createVisualizer()\<close>. A change event runs
  both listeners, the second one also when the first has raised; the result is the state
  after both and the number of listeners that ended with an uncaught exception.
\<close>

definition onStyleChange :: "host \<Rightarrow> string \<Rightarrow> visualizer \<Rightarrow> visualizer outcome" where
  "onStyleChange h v s = createVisualizer h (s\<lparr> currentStyle := v \<rparr>)"

definition selectStyle :: "host \<Rightarrow> string \<Rightarrow> visualizer \<Rightarrow> nat \<times> visualizer" where
  "selectStyle h v s =
     (let r1 = onStyleChange h v s;
          r2 = onStyleChange h v (stateOf r1)
      in ((if isRaised r1 then 1 else 0) + (if isRaised r2 then 1 else 0), stateOf r2))"

text \<open>
  The constructor: the fields, \<open>init\<close> (lights, orbit controls, a first
  \<open>createVisualizer\<close>), \<open>setupControls\<close>, and \<open>createVisualizer\<close> again.
\<close>

definition constructorFields :: "host \<Rightarrow> visualizer" where
  "constructorFields h =
     \<lparr> scene = [],
       background = 0,
       camera = \<lparr> camId = 0, projection = PerspectiveCamera 75 (aspect h) (1 / 10) 1000,
                  position = (0, 0, 0), lookAt = (0, 0, - 1) \<rparr>,
       originalCamera = None,
       nextId = 1,
       analyser = False,
       bars = [],
       particles = [],
       towers = [],
       groundPlane = None,
       cloudLayers = [],
       starfield = None,
       pointsMesh = None,
       currentStyle = ''bars'',
       orbitControls = \<lparr> object = 0, enabled = False, target = (0, 0, 0) \<rparr>,
       shaderPlane = None,
       shaderMaterial = None,
       shaderTime = 0,
       audioDataArray = None,
       lowFreqSmoothed = Fin 0,
       midFreqSmoothed = Fin 0,
       highFreqSmoothed = Fin 0,
       overallSmoothed = Fin 0,
       resizeHandler = False,
       towerGridSettings = False,
       renderCount = 0 \<rparr>"

definition newVisualizer :: "host \<Rightarrow> visualizer outcome" where
  "newVisualizer h =
     steps [
       assign (setCamera (0, 0, 15) (0, 0, 0)),
       assign (sceneAdd InitAmbientLight),
       assign (sceneAdd SunLight),
       createVisualizer h,
       createVisualizer h ] (constructorFields h)"

text \<open>
  \<open>analyser.getByteFrequencyData(array)\<close> copies the analyser's bins into the array, as
  many as fit, and leaves the length of the array as it is.
\<close>

definition getByteFrequencyData :: "8 word list \<Rightarrow> 8 word list \<Rightarrow> 8 word list" where
  "getByteFrequencyData bins array = take (length array) bins @ drop (length bins) array"

text \<open>\<open>updateShadersVisualizer(delta)\<close>; \<open>bins\<close> is what the analyser holds at the call.\<close>

definition updateShadersVisualizer :: "8 word list \<Rightarrow> rat \<Rightarrow> visualizer \<Rightarrow> visualizer" where
  "updateShadersVisualizer bins delta s =
     (case shaderMaterial s of
        None \<Rightarrow> s
      | Some u \<Rightarrow>
          let s1 = s\<lparr> shaderTime := shaderTime s + delta,
                      shaderMaterial := Some (u\<lparr> time := shaderTime s + delta \<rparr>) \<rparr>
          in if \<not> analyser s1 then s1
             else case audioDataArray s1 of
                    None \<Rightarrow> s1
                  | Some array \<Rightarrow>
                      let audioData = getByteFrequencyData bins array
                      in case shaderBands audioData of
                           (lowFreq, midFreq, highFreq, overall) \<Rightarrow>
                             let low = smoothBand (lowFreqSmoothed s1) lowFreq;
                                 mid = smoothBand (midFreqSmoothed s1) midFreq;
                                 high = smoothBand (highFreqSmoothed s1) highFreq;
                                 ovr = smoothBand (overallSmoothed s1) overall
                             in s1\<lparr> audioDataArray := Some audioData,
                                    lowFreqSmoothed := low,
                                    midFreqSmoothed := mid,
                                    highFreqSmoothed := high,
                                    overallSmoothed := ovr,
                                    shaderMaterial :=
                                      Some (u\<lparr> time := shaderTime s + delta,
                                               audioLevel := ovr,
                                               audioLowFreq := low,
                                               audioHighFreq := high \<rparr>) \<rparr>)"

text \<open>A level that is a finite number between 0 and 1.\<close>

definition unitLevel :: "jsnum \<Rightarrow> bool" where
  "unitLevel a =
     (case a of Fin x \<Rightarrow> 0 \<le> x \<and> x \<le> 1 | PInf \<Rightarrow> False | NInf \<Rightarrow> False | NaN \<Rightarrow> False)"

definition smoothedUnit :: "visualizer \<Rightarrow> bool" where
  "smoothedUnit s =
     (unitLevel (lowFreqSmoothed s) \<and> unitLevel (midFreqSmoothed s)
      \<and> unitLevel (highFreqSmoothed s) \<and> unitLevel (overallSmoothed s))"

definition uniformsUnit :: "visualizer \<Rightarrow> bool" where
  "uniformsUnit s =
     (case shaderMaterial s of
        None \<Rightarrow> False
      | Some u \<Rightarrow> unitLevel (audioLevel u) \<and> unitLevel (audioLowFreq u)
                  \<and> unitLevel (audioHighFreq u))"

section \<open>Particle engine\<close>

text \<open>
  The state of the wave style: the pool arrays of \<open>maxParticles\<close> slots (\<open>positions\<close> and
  \<open>colors\<close> hold three numbers per slot), the sparse array \<open>waveParticles\<close>, the exhibition
  frames and the beat detector. A slot is inactive when its lifetime is negative. The pool
  arrays are \<open>Float32Array\<close>s; their rounding to single precision is not modelled, the
  entries are exact rationals. The sizes are results of a division by \<open>particleLifespan\<close>
  and can be any number.
\<close>

record particle =
  velocity :: vec3
  initialSize :: rat
  frameInteractions :: nat

record frame =
  framePosition :: vec3
  frameWidth :: rat
  frameHeight :: rat

record wave =
  waveParticles :: "nat \<rightharpoonup> particle"
  particleCount :: nat
  maxParticles :: nat
  emissionRate :: nat
  particleLifespan :: rat
  exhibitionFrames :: "frame list"
  positions :: "rat list"
  colors :: "rat list"
  sizes :: "jsnum list"
  particleLifetimes :: "rat list"
  waveTime :: rat
  beatDetectionVars :: beatVars

definition createExhibitionFrames :: "frame list" where
  "createExhibitionFrames =
     map (\<lambda>i. \<lparr> framePosition = (0, 15, - 50 + of_nat i * 30),
                 frameWidth = 80 - of_nat i * 15,
                 frameHeight = 40 - of_nat i * 7 \<rparr>) [0..<3]"

definition createWaveVisualizer :: wave where
  "createWaveVisualizer =
     \<lparr> waveParticles = Map.empty,
       particleCount = 0,
       maxParticles = 3000,
       emissionRate = 30,
       particleLifespan = 3,
       exhibitionFrames = createExhibitionFrames,
       positions = replicate (3000 * 3) 0,
       colors = replicate (3000 * 3) 0,
       sizes = replicate 3000 (Fin 0),
       particleLifetimes = replicate 3000 (- 1),
       waveTime = 0,
       beatDetectionVars = initBeatDetectionVars \<rparr>"

text \<open>
  The remainder operator of JavaScript takes the sign of the dividend: \<open>x % 1.0\<close> on a
  number and \<open>a % 3\<close> on an integer.
\<close>

definition jsmod1 :: "rat \<Rightarrow> rat" where
  "jsmod1 x = x - of_int (if 0 \<le> x then \<lfloor>x\<rfloor> else \<lceil>x\<rceil>)"

definition jsrem3 :: "int \<Rightarrow> int" where
  "jsrem3 a = (if 0 \<le> a then a mod 3 else - ((- a) mod 3))"

text \<open>
  What one iteration of the emission loop takes from \<open>Math.random\<close>, \<open>Math.cos\<close> and
  \<open>Math.sin\<close>: the cosine and sine of the random angle and of the random elevation, and the
  random numbers used for the vertical jitter, the spread, the upward speed, the hue, the
  saturation and the size.
\<close>

record draw =
  cosAngle :: rat
  sinAngle :: rat
  cosElevation :: rat
  sinElevation :: rat
  randVertical :: rat
  randSpread :: rat
  randUp :: rat
  randHue :: rat
  randSaturation :: rat
  randSize :: rat

definition initialVelocity :: "int \<Rightarrow> rat \<Rightarrow> draw \<Rightarrow> vec3" where
  "initialVelocity patternType baseSpeed d =
     (if patternType = 0
      then (cosAngle d * cosElevation d * baseSpeed,
            sinElevation d * baseSpeed,
            sinAngle d * cosElevation d * baseSpeed)
      else if patternType = 1
      then (cosAngle d * baseSpeed,
            (randVertical d - 1 / 2) * baseSpeed * (1 / 5),
            sinAngle d * baseSpeed)
      else if patternType = 2
      then (cosAngle d * baseSpeed * (randSpread d * (3 / 10)),
            baseSpeed * (7 / 10 + randUp d * (3 / 10)),
            sinAngle d * baseSpeed * (randSpread d * (3 / 10)))
      else (0, 0, 0))"

text \<open>
  The scan for an inactive slot: the first \<open>j\<close> below \<open>maxParticles\<close> with
  \<open>particleLifetimes[j] < 0\<close>. A read past the end of the array gives \<open>undefined\<close>, and the
  comparison is false then.
\<close>

definition freeSlot :: "wave \<Rightarrow> nat option" where
  "freeSlot s =
     find (\<lambda>j. j < length (particleLifetimes s) \<and> particleLifetimes s ! j < 0)
       [0..<maxParticles s]"

text \<open>
  The body of the emission loop after a slot has been found. \<open>setHSL\<close> is the conversion of
  the rendering library from hue, saturation and lightness to red, green and blue.
\<close>

definition activateParticle ::
  "(rat \<Rightarrow> rat \<Rightarrow> rat \<Rightarrow> vec3) \<Rightarrow> rat \<Rightarrow> rat \<Rightarrow> draw \<Rightarrow> nat \<Rightarrow> wave \<Rightarrow> wave" where
  "activateParticle setHSL bassIntensity trebleIntensity d particleIndex s =
     (let baseSpeed = 15 + bassIntensity * 25;
          baseSize = 3 / 2 + bassIntensity * (5 / 2);
          baseHue = jsmod1 (waveTime s * (1 / 20));
          hueVariation = 2 / 25 + trebleIntensity * (1 / 10);
          patternType = jsrem3 \<lfloor>dmul bassIntensity 3\<rfloor>;
          hue0 = baseHue + (randHue d - 1 / 2) * hueVariation;
          hue1 = (if hue0 < 0 then hue0 + 1 else hue0);
          hue = (if 1 < hue1 then hue1 - 1 else hue1);
          saturation = 7 / 10 + randSaturation d * (3 / 10);
          lightness = 1 / 2 + trebleIntensity * (1 / 5);
          randomSize = baseSize * (4 / 5 + randSize d * (2 / 5))
      in case setHSL hue saturation lightness of
           (r, g, b) \<Rightarrow>
             s\<lparr> particleLifetimes := (particleLifetimes s)[particleIndex := particleLifespan s],
                positions := (positions s)[particleIndex * 3 := 0,
                                           particleIndex * 3 + 1 := 0,
                                           particleIndex * 3 + 2 := 0],
                colors := (colors s)[particleIndex * 3 := r,
                                     particleIndex * 3 + 1 := g,
                                     particleIndex * 3 + 2 := b],
                sizes := (sizes s)[particleIndex := Fin randomSize],
                waveParticles := (waveParticles s)(particleIndex \<mapsto>
                                   \<lparr> velocity = initialVelocity patternType baseSpeed d,
                                     initialSize = randomSize,
                                     frameInteractions = 0 \<rparr>) \<rparr>)"

text \<open>
  The emission loop, \<open>n\<close> iterations from iteration \<open>i\<close> on; it ends early when no slot is
  free.
\<close>

fun emitLoop ::
  "(rat \<Rightarrow> rat \<Rightarrow> rat \<Rightarrow> vec3) \<Rightarrow> (nat \<Rightarrow> draw) \<Rightarrow> rat \<Rightarrow> rat \<Rightarrow> nat \<Rightarrow> nat \<Rightarrow> wave \<Rightarrow> wave" where
  "emitLoop setHSL draws bassIntensity trebleIntensity 0 i s = s"
| "emitLoop setHSL draws bassIntensity trebleIntensity (Suc n) i s =
     (case freeSlot s of
        None \<Rightarrow> s
      | Some particleIndex \<Rightarrow>
          emitLoop setHSL draws bassIntensity trebleIntensity n (Suc i)
            (activateParticle setHSL bassIntensity trebleIntensity (draws i) particleIndex s))"

text \<open>
  \<open>Math.min(Math.floor(count * (1 + bassIntensity)), this.maxParticles - this.particleCount)\<close>,
  the sum and the product rounded as doubles.
\<close>

definition particlesToEmit :: "rat \<Rightarrow> rat \<Rightarrow> wave \<Rightarrow> int" where
  "particlesToEmit count bassIntensity s =
     min \<lfloor>dmul count (dadd 1 bassIntensity)\<rfloor> (int (maxParticles s) - int (particleCount s))"

text \<open>
  \<open>emitParticles(count, bassIntensity, trebleIntensity)\<close>, for finite arguments, which are
  the exact values of the doubles passed.
\<close>

definition emitParticles ::
  "(rat \<Rightarrow> rat \<Rightarrow> rat \<Rightarrow> vec3) \<Rightarrow> (nat \<Rightarrow> draw) \<Rightarrow> rat \<Rightarrow> rat \<Rightarrow> rat \<Rightarrow> wave \<Rightarrow> wave" where
  "emitParticles setHSL draws count bassIntensity trebleIntensity s =
     emitLoop setHSL draws bassIntensity trebleIntensity
       (nat (particlesToEmit count bassIntensity s)) 0 s"

text \<open>A sequence of emission calls, each with its arguments and its random draws.\<close>

type_synonym emission = "(nat \<Rightarrow> draw) \<times> rat \<times> rat \<times> rat"

definition emitCall :: "(rat \<Rightarrow> rat \<Rightarrow> rat \<Rightarrow> vec3) \<Rightarrow> emission \<Rightarrow> wave \<Rightarrow> wave" where
  "emitCall setHSL e s =
     emitParticles setHSL (fst e) (fst (snd e)) (fst (snd (snd e))) (snd (snd (snd e))) s"

definition emitAll :: "(rat \<Rightarrow> rat \<Rightarrow> rat \<Rightarrow> vec3) \<Rightarrow> emission list \<Rightarrow> wave \<Rightarrow> wave" where
  "emitAll setHSL es s = fold (emitCall setHSL) es s"

text \<open>The number of active slots of the pool.\<close>

definition activeCount :: "wave \<Rightarrow> nat" where
  "activeCount s = length (filter (\<lambda>l. \<not> l < 0) (particleLifetimes s))"

text \<open>
  The size written for a live particle in \<open>updateWaveVisualizer\<close>:
  \<open>initialSize * sizeFactor * fadeIn * fadeOut\<close>, where \<open>lifeFactor\<close> is the remaining
  lifetime divided by \<open>particleLifespan\<close>.
\<close>

definition sizeFactor :: "particle \<Rightarrow> rat" where
  "sizeFactor p =
     (if 0 < frameInteractions p then 1 + of_nat (frameInteractions p) * (1 / 10) else 1)"

definition fadeIn :: "jsnum \<Rightarrow> jsnum" where
  "fadeIn lifeFactor =
     (if jsless lifeFactor (Fin (9 / 10)) then jsdivr lifeFactor (9 / 10) else Fin 1)"

definition fadeOut :: "jsnum \<Rightarrow> jsnum" where
  "fadeOut lifeFactor =
     (if jsless lifeFactor (Fin (1 / 5)) then jsdivr lifeFactor (1 / 5) else Fin 1)"

definition particleSize :: "particle \<Rightarrow> jsnum \<Rightarrow> jsnum" where
  "particleSize p lifeFactor =
     jsmul (jsmul (jsmul (Fin (initialSize p)) (Fin (sizeFactor p))) (fadeIn lifeFactor))
       (fadeOut lifeFactor)"

text \<open>
  The test of one exhibition frame, number \<open>j\<close>, for the particle in slot \<open>i\<close>: when the
  particle went through the plane of the frame inside its rectangle, the velocity is
  damped, the colour is changed and the interaction is counted.
\<close>

definition scaleVec :: "rat \<Rightarrow> vec3 \<Rightarrow> vec3" where
  "scaleVec c v = (case v of (x, y, z) \<Rightarrow> (x * c, y * c, z * c))"

definition hitFrame ::
  "(rat \<Rightarrow> rat \<Rightarrow> rat \<Rightarrow> vec3) \<Rightarrow> rat \<Rightarrow> nat \<Rightarrow> nat \<Rightarrow> frame \<Rightarrow> wave \<Rightarrow> wave" where
  "hitFrame setHSL oldZ i j f s =
     (case framePosition f of
        (fx, fy, fz) \<Rightarrow>
          if oldZ < fz \<and> fz \<le> positions s ! (i * 3 + 2)
             \<and> fx - frameWidth f / 2 \<le> positions s ! (i * 3)
             \<and> positions s ! (i * 3) \<le> fx + frameWidth f / 2
             \<and> fy - frameHeight f / 2 \<le> positions s ! (i * 3 + 1)
             \<and> positions s ! (i * 3 + 1) \<le> fy + frameHeight f / 2
          then (let hue = (colors s ! (i * 3) + colors s ! (i * 3 + 1) + colors s ! (i * 3 + 2)) / 3
                in case setHSL (jsmod1 (hue + (1 / 10) * of_nat j)) (4 / 5)
                          (1 / 2 + of_nat j * (1 / 10)) of
                     (r, g, b) \<Rightarrow>
                       s\<lparr> colors := (colors s)[i * 3 := r, i * 3 + 1 := g, i * 3 + 2 := b],
                          waveParticles :=
                            (case waveParticles s i of
                               None \<Rightarrow> waveParticles s
                             | Some p \<Rightarrow>
                                 (waveParticles s)(i \<mapsto>
                                    p\<lparr> velocity := scaleVec (4 / 5) (velocity p),
                                       frameInteractions := Suc (frameInteractions p) \<rparr>)) \<rparr>)
          else s)"

fun hitFrames ::
  "(rat \<Rightarrow> rat \<Rightarrow> rat \<Rightarrow> vec3) \<Rightarrow> rat \<Rightarrow> nat \<Rightarrow> nat \<Rightarrow> frame list \<Rightarrow> wave \<Rightarrow> wave" where
  "hitFrames setHSL oldZ i j [] s = s"
| "hitFrames setHSL oldZ i j (f # fs) s =
     hitFrames setHSL oldZ i (Suc j) fs (hitFrame setHSL oldZ i j f s)"

text \<open>
  The body of the particle loop of \<open>updateWaveVisualizer\<close> for slot \<open>i\<close>, on the pair of
  the running \<open>activeCount\<close> and the state. The slots of the pool arrays are inside the
  arrays for \<open>i\<close> below \<open>maxParticles\<close>.
\<close>

definition moveParticle :: "(rat \<Rightarrow> rat \<Rightarrow> rat \<Rightarrow> vec3) \<Rightarrow> rat \<Rightarrow> nat \<Rightarrow> wave \<Rightarrow> wave" where
  "moveParticle setHSL delta i s =
     (case waveParticles s i of
        None \<Rightarrow> s
      | Some p0 \<Rightarrow>
          (case velocity p0 of
             (vx, vy, vz) \<Rightarrow>
               let oldZ = positions s ! (i * 3 + 2);
                   s1 = s\<lparr> positions :=
                             (positions s)[i * 3 := positions s ! (i * 3) + vx * delta,
                                           i * 3 + 1 := positions s ! (i * 3 + 1) + vy * delta,
                                           i * 3 + 2 := positions s ! (i * 3 + 2) + vz * delta] \<rparr>;
                   s2 = hitFrames setHSL oldZ i 0 (exhibitionFrames s1) s1
               in case waveParticles s2 i of
                    None \<Rightarrow> s2
                  | Some p1 \<Rightarrow>
                      (case velocity p1 of
                         (wx, wy, wz) \<Rightarrow>
                           let p2 = p1\<lparr> velocity :=
                                          scaleVec (199 / 200) (wx, wy - (1 / 2) * delta, wz) \<rparr>
                           in s2\<lparr> waveParticles := (waveParticles s2)(i \<mapsto> p2),
                                  sizes := (sizes s2)[i :=
                                    particleSize p2
                                      (jsdivr (Fin (particleLifetimes s2 ! i))
                                         (particleLifespan s2))] \<rparr>)))"

definition updateParticle ::
  "(rat \<Rightarrow> rat \<Rightarrow> rat \<Rightarrow> vec3) \<Rightarrow> rat \<Rightarrow> nat \<Rightarrow> nat \<times> wave \<Rightarrow> nat \<times> wave" where
  "updateParticle setHSL delta i cs =
     (case cs of
        (count, s) \<Rightarrow>
          if particleLifetimes s ! i < 0 then (count, s)
          else let s1 = s\<lparr> particleLifetimes :=
                             (particleLifetimes s)[i := particleLifetimes s ! i - delta] \<rparr>
               in if particleLifetimes s1 ! i < 0
                  then (count, s1\<lparr> sizes := (sizes s1)[i := Fin 0] \<rparr>)
                  else (Suc count, moveParticle setHSL delta i s1))"

text \<open>
  The particle loop over the slots below \<open>n\<close>, and the loop over the whole pool followed
  by \<open>this.particleCount = activeCount\<close>.
\<close>

definition particleLoop ::
  "(rat \<Rightarrow> rat \<Rightarrow> rat \<Rightarrow> vec3) \<Rightarrow> rat \<Rightarrow> nat \<Rightarrow> wave \<Rightarrow> nat \<times> wave" where
  "particleLoop setHSL delta n s = fold (updateParticle setHSL delta) [0..<n] (0, s)"

definition updateParticles :: "(rat \<Rightarrow> rat \<Rightarrow> rat \<Rightarrow> vec3) \<Rightarrow> rat \<Rightarrow> wave \<Rightarrow> wave" where
  "updateParticles setHSL delta s =
     (case particleLoop setHSL delta (maxParticles s) s of
        (count, s') \<Rightarrow> s'\<lparr> particleCount := count \<rparr>)"

text \<open>
  The size envelope in the words of the specification:
  \<open>initialSize * (1 + 0.1 * frameInteractionCount) * fadeIn * fadeOut\<close> with
  \<open>fadeIn = min(lifeFraction / 0.9, 1)\<close> and \<open>fadeOut = min(lifeFraction / 0.2, 1)\<close>.
\<close>

definition specSize :: "rat \<Rightarrow> nat \<Rightarrow> rat \<Rightarrow> rat" where
  "specSize initSize interactions lifeFraction =
     initSize * (1 + (1 / 10) * of_nat interactions)
       * min (lifeFraction / (9 / 10)) 1 * min (lifeFraction / (1 / 5)) 1"

text \<open>
  The inactive slots of the pool in index order, and the lifetimes array after the slots
  \<open>js\<close> have been set to \<open>L\<close>.
\<close>

definition freeSlots :: "wave \<Rightarrow> nat list" where
  "freeSlots s =
     filter (\<lambda>j. j < length (particleLifetimes s) \<and> particleLifetimes s ! j < 0)
       [0..<maxParticles s]"

definition markSlots :: "rat \<Rightarrow> nat list \<Rightarrow> rat list \<Rightarrow> rat list" where
  "markSlots L js lt = fold (\<lambda>j l. l[j := L]) js lt"

text \<open>
  The state in which \<open>createVisualizer\<close> enters its \<open>switch\<close>: the scene cleared, the
  camera replaced when \<open>previousStyle\<close> is shaders, and the camera, the background and the
  orbit controls reset.
\<close>

definition prepareScene :: "host \<Rightarrow> visualizer \<Rightarrow> visualizer" where
  "prepareScene h s =
     (let s1 = clearScene s;
          s2 = (if currentStyle s = ''shaders'' then restoreCamera h s1 else s1);
          s3 = setCamera (0, 10, 20) (0, 0, 0) s2
      in s3\<lparr> background := 0x000005,
              orbitControls := (orbitControls s3)\<lparr> enabled := False, target := (0, 0, 0) \<rparr> \<rparr>)"

text \<open>
  The scene objects the controller holds a reference to: the ones \<open>clearScene\<close> takes out
  of the scene.
\<close>

definition optList :: "'a option \<Rightarrow> 'a list" where
  "optList x = (case x of None \<Rightarrow> [] | Some y \<Rightarrow> [y])"

definition styleObjects :: "visualizer \<Rightarrow> obj list" where
  "styleObjects s =
     bars s @ particles s @ towers s @ optList (groundPlane s) @ cloudLayers s
       @ optList (starfield s) @ optList (pointsMesh s) @ optList (shaderPlane s)"

section \<open>Example inputs\<close>

text \<open>
  Two ticks with a loud five-sample spectrum, a tenth of a second apart, and a stand-in for
  \<open>Math.pow\<close> that is exact on the exponent 1.
\<close>

definition loudTicks :: "tick list" where
  "loudTicks = [([255, 255, 255, 255, 255], 1 / 60, 1), ([255, 255, 255, 255, 255], 1 / 10, 11 / 10)]"

definition powStub :: "rat \<Rightarrow> rat \<Rightarrow> rat" where
  "powStub b e = (if e = 0 then 1 else b)"

text \<open>
  A grey-scale stand-in for the colour conversion of the rendering library, and draws
  with the angle and the elevation zero and every random number one half.
\<close>

definition hslStub :: "rat \<Rightarrow> rat \<Rightarrow> rat \<Rightarrow> vec3" where
  "hslStub h s l = (l, l, l)"

definition drawStub :: "nat \<Rightarrow> draw" where
  "drawStub i = \<lparr> cosAngle = 1, sinAngle = 0, cosElevation = 1, sinElevation = 0,
                   randVertical = 1 / 2, randSpread = 1 / 2, randUp = 1 / 2, randHue = 1 / 2,
                   randSaturation = 1 / 2, randSize = 1 / 2 \<rparr>"

text \<open>
  A host on which every constructor works, and one on which \<open>BufferGeometry\<close> raises.
\<close>

definition okHost :: host where
  "okHost = \<lparr> innerWidth = 1920, innerHeight = 1080, aspect = 16 / 9, fails = (\<lambda>r. False) \<rparr>"

definition noBufferHost :: host where
  "noBufferHost = \<lparr> innerWidth = 1920, innerHeight = 1080, aspect = 16 / 9,
                     fails = (\<lambda>r. r = BufferGeometry) \<rparr>"

definition noShaderHost :: host where
  "noShaderHost = \<lparr> innerWidth = 1920, innerHeight = 1080, aspect = 16 / 9,
                     fails = (\<lambda>r. r = ShaderMaterial) \<rparr>"

text \<open>
  The controller after its construction, and after the style selector has then been set to
  shaders and back to bars.
\<close>

definition startState :: "host \<Rightarrow> visualizer" where
  "startState h = stateOf (newVisualizer h)"

definition barsShadersBars :: visualizer where
  "barsShadersBars =
     snd (selectStyle okHost ''bars'' (snd (selectStyle okHost ''shaders'' (startState okHost))))"

text \<open>
  A controller in the shaders style with an analyser, a pool of two slots whose first slot
  holds a particle of initial size 2 that has just been emitted (its remaining lifetime is
  \<open>particleLifespan\<close>), and the pool of the program with every slot active.
\<close>

definition shaderExample :: visualizer where
  "shaderExample =
     (constructorFields okHost)
       \<lparr> currentStyle := ''shaders'',
         analyser := True,
         shaderMaterial := Some \<lparr> time = 0, resolution = (1920, 1080), audioLevel = Fin 0,
                                  audioLowFreq = Fin 0, audioHighFreq = Fin 0 \<rparr>,
         audioDataArray := Some (replicate 128 0) \<rparr>"

definition smallWave :: wave where
  "smallWave =
     \<lparr> waveParticles = [0 \<mapsto> \<lparr> velocity = (0, 0, 0), initialSize = 2, frameInteractions = 0 \<rparr>],
       particleCount = 1,
       maxParticles = 2,
       emissionRate = 30,
       particleLifespan = 3,
       exhibitionFrames = createExhibitionFrames,
       positions = replicate 6 0,
       colors = replicate 6 0,
       sizes = [Fin 2, Fin 0],
       particleLifetimes = [3, - 1],
       waveTime = 0,
       beatDetectionVars = initBeatDetectionVars \<rparr>"

definition fullWave :: wave where
  "fullWave = createWaveVisualizer \<lparr> particleCount := 3000, particleLifetimes := replicate 3000 3 \<rparr>"

section \<open>Properties of the beat detector\<close>

lemma energyHistory_detectBeats:
  "energyHistory (detectBeats pow f d t b) = pushEnergy (bassEnergyOf f) (energyHistory b)"
  by (simp add: detectBeats_def Let_def)

lemma beatHoldTime_detectBeats: "beatHoldTime (detectBeats pow f d t b) = beatHoldTime b"
  by (simp add: detectBeats_def Let_def)

lemma lastBeatTime_detectBeats:
  "lastBeatTime (detectBeats pow f d t b) = (if bassBeatFires f t b then t else lastBeatTime b)"
  by (simp add: detectBeats_def Let_def)

lemma runTicks_snoc:
  "runTicks pow (ticks @ [t]) b = detectTick pow t (runTicks pow ticks b)"
  by (simp add: runTicks_def)

lemma length_pushEnergy_le: "length h \<le> 30 \<Longrightarrow> length (pushEnergy e h) \<le> 30"
  by (simp add: pushEnergy_def Let_def)

lemma length_pushEnergy_30: "length h = 30 \<Longrightarrow> length (pushEnergy e h) = 30"
  by (simp add: pushEnergy_def Let_def)

lemma beatHoldTime_runTicks: "beatHoldTime (runTicks pow ticks b) = beatHoldTime b"
  by (induction ticks rule: rev_induct)
     (simp_all add: runTicks_snoc detectTick_def beatHoldTime_detectBeats, simp add: runTicks_def)

lemma lastBeatTime_runTicks_ge:
  assumes hold: "0 \<le> beatHoldTime b"
    and fire: "bassBeatFires (tickData (ticks ! i)) (tickTime (ticks ! i))
                 (runTicks pow (take i ticks) b)"
  shows "i < j \<Longrightarrow> j \<le> length ticks \<Longrightarrow>
         tickTime (ticks ! i) \<le> lastBeatTime (runTicks pow (take j ticks) b)"
proof (induction j)
  case 0
  then show ?case by simp
next
  case (Suc j)
  from Suc.prems have jlen: "j < length ticks" by simp
  have step: "runTicks pow (take (Suc j) ticks) b =
              detectTick pow (ticks ! j) (runTicks pow (take j ticks) b)"
    using jlen by (simp add: take_Suc_conv_app_nth runTicks_snoc)
  show ?case
  proof (cases "j = i")
    case True
    with fire step show ?thesis
      by (simp add: detectTick_def lastBeatTime_detectBeats tickData_def tickTime_def)
  next
    case False
    with Suc.prems have "i < j" by simp
    with Suc.IH jlen
    have ih: "tickTime (ticks ! i) \<le> lastBeatTime (runTicks pow (take j ticks) b)" by simp
    show ?thesis
    proof (cases "bassBeatFires (fst (ticks ! j)) (snd (snd (ticks ! j)))
                    (runTicks pow (take j ticks) b)")
      case True
      then have "beatHoldTime (runTicks pow (take j ticks) b)
                 < snd (snd (ticks ! j)) - lastBeatTime (runTicks pow (take j ticks) b)"
        by (simp add: bassBeatFires_def)
      with hold ih have "tickTime (ticks ! i) \<le> snd (snd (ticks ! j))"
        by (simp add: beatHoldTime_runTicks)
      with True show ?thesis
        by (simp add: step detectTick_def lastBeatTime_detectBeats)
    next
      case False
      with ih show ?thesis
        by (simp add: step detectTick_def lastBeatTime_detectBeats)
    qed
  qed
qed

text \<open>
  C6. Once a bass beat has fired at tick \<open>i\<close>, at clock time \<open>t\<close>, no bass beat fires at a
  later tick \<open>k\<close> whose clock time \<open>t'\<close> has \<open>t' - t \<le> beatHoldTime\<close>, whatever the
  spectra and the clock readings of the ticks in between are. The hold time is the one of
  the detector state (0.2 in the program); the property needs only that it is not
  negative.
\<close>

theorem bass_beat_hold:
  assumes "0 \<le> beatHoldTime b"
    and "i < k" and "k < length ticks"
    and "bassBeatFires (tickData (ticks ! i)) (tickTime (ticks ! i))
           (runTicks pow (take i ticks) b)"
    and "tickTime (ticks ! k) - tickTime (ticks ! i) \<le> beatHoldTime b"
  shows "\<not> bassBeatFires (tickData (ticks ! k)) (tickTime (ticks ! k))
             (runTicks pow (take k ticks) b)"
proof
  assume fires: "bassBeatFires (tickData (ticks ! k)) (tickTime (ticks ! k))
                   (runTicks pow (take k ticks) b)"
  have "tickTime (ticks ! i) \<le> lastBeatTime (runTicks pow (take k ticks) b)"
    using lastBeatTime_runTicks_ge [OF assms(1) assms(4), of k] assms(2,3) by simp
  moreover from fires
  have "beatHoldTime b < tickTime (ticks ! k) - lastBeatTime (runTicks pow (take k ticks) b)"
    by (simp add: bassBeatFires_def beatHoldTime_runTicks)
  ultimately show False using assms(5) by simp
qed

text \<open>
  C7. Starting from a history of at most 30 entries (the detector starts with 30), the
  history has at most 30 entries after any number of ticks. A tick appends the current bass
  energy; when that would make 31 entries, it drops the oldest one, the head, and nothing
  else.
\<close>

theorem energyHistory_bounded_fifo:
  assumes "length (energyHistory b) \<le> 30"
  shows "length (energyHistory (runTicks pow ticks b)) \<le> 30
       \<and> energyHistory (detectBeats pow f d t b) =
           (if length (energyHistory b) = 30
            then tl (energyHistory b) @ [bassEnergyOf f]
            else energyHistory b @ [bassEnergyOf f])"
proof
  show "length (energyHistory (runTicks pow ticks b)) \<le> 30"
  proof (induction ticks rule: rev_induct)
    case Nil
    then show ?case using assms by (simp add: runTicks_def)
  next
    case (snoc t ticks)
    then show ?case
      by (simp add: runTicks_snoc detectTick_def energyHistory_detectBeats length_pushEnergy_le)
  qed
next
  show "energyHistory (detectBeats pow f d t b) =
           (if length (energyHistory b) = 30
            then tl (energyHistory b) @ [bassEnergyOf f]
            else energyHistory b @ [bassEnergyOf f])"
  proof (cases "energyHistory b")
    case Nil
    then show ?thesis by (simp add: energyHistory_detectBeats pushEnergy_def Let_def)
  next
    case (Cons x xs)
    with assms show ?thesis
      by (simp add: energyHistory_detectBeats pushEnergy_def Let_def)
  qed
qed

lemma pushEnergy_30: "length h = 30 \<Longrightarrow> pushEnergy e h = tl h @ [e]"
  by (cases h) (simp_all add: pushEnergy_def Let_def)

lemma length_energyHistory_init:
  "length (energyHistory (runTicks pow ticks initBeatDetectionVars)) = 30"
proof (induction ticks rule: rev_induct)
  case Nil
  then show ?case by (simp add: runTicks_def initBeatDetectionVars_def)
next
  case (snoc t ticks)
  then show ?case
    by (simp add: runTicks_snoc detectTick_def energyHistory_detectBeats length_pushEnergy_30)
qed

text \<open>
  C10. The history starts as 30 zeros, and after any number of ticks it has exactly 30
  entries. A tick pushes the bass energy of its spectrum at the end and evicts exactly one
  entry, the oldest: the history after the tick is the tail of the history before it
  followed by the new energy. The mean of a tick is taken over the history after the push
  of that tick, which has 30 entries again: the divisor of \<open>averageEnergy\<close> is 30, never
  0.
\<close>

theorem energyHistory_always_30:
  "energyHistory initBeatDetectionVars = replicate 30 (Fin 0)
   \<and> length (energyHistory (runTicks pow ticks initBeatDetectionVars)) = 30
   \<and> averageEnergyOf (pushEnergy e (energyHistory (runTicks pow ticks initBeatDetectionVars))) =
       jsdivn (fold (\<lambda>val sum. jsadd sum val)
                 (pushEnergy e (energyHistory (runTicks pow ticks initBeatDetectionVars))) (Fin 0)) 30
   \<and> pushEnergy e (energyHistory (runTicks pow ticks initBeatDetectionVars)) =
       tl (energyHistory (runTicks pow ticks initBeatDetectionVars)) @ [e]
   \<and> energyHistory (detectBeats pow f d t (runTicks pow ticks initBeatDetectionVars)) =
       tl (energyHistory (runTicks pow ticks initBeatDetectionVars)) @ [bassEnergyOf f]
   \<and> energyHistory (runTicks pow (ticks @ [(f, d, t)]) initBeatDetectionVars) =
       tl (energyHistory (runTicks pow ticks initBeatDetectionVars)) @ [bassEnergyOf f]"
proof -
  note len = length_energyHistory_init [of pow ticks]
  have "energyHistory initBeatDetectionVars = replicate 30 (Fin 0)"
    by (simp add: initBeatDetectionVars_def)
  moreover have
    "averageEnergyOf (pushEnergy e (energyHistory (runTicks pow ticks initBeatDetectionVars))) =
       jsdivn (fold (\<lambda>val sum. jsadd sum val)
                 (pushEnergy e (energyHistory (runTicks pow ticks initBeatDetectionVars))) (Fin 0)) 30"
    using len by (simp add: averageEnergyOf_def length_pushEnergy_30)
  moreover have
    "energyHistory (detectBeats pow f d t (runTicks pow ticks initBeatDetectionVars)) =
       tl (energyHistory (runTicks pow ticks initBeatDetectionVars)) @ [bassEnergyOf f]"
    using len by (simp add: energyHistory_detectBeats pushEnergy_30)
  moreover have
    "energyHistory (runTicks pow (ticks @ [(f, d, t)]) initBeatDetectionVars) =
       tl (energyHistory (runTicks pow ticks initBeatDetectionVars)) @ [bassEnergyOf f]"
    using len by (simp add: runTicks_snoc detectTick_def energyHistory_detectBeats pushEnergy_30)
  ultimately show ?thesis
    using len pushEnergy_30 [OF len, of e] by simp
qed

section \<open>Properties of the band levels\<close>

lemma level_ge0: "0 \<le> level w"
  unfolding level_def by (simp del: of_nat_unat)

lemma level_le1: "level w \<le> 1"
proof -
  have "unat w < 2 ^ LENGTH(8)" by (rule unsigned_less)
  then have "unat w \<le> 255" by simp
  then have "(of_nat (unat w) :: rat) \<le> of_nat 255" by (simp only: of_nat_le_iff)
  then show ?thesis unfolding level_def by (simp del: of_nat_unat)
qed

lemma bandSums_Suc:
  "bandSums xs (Suc n) =
     (case bandSums xs n of (lowFreq, midFreq, highFreq, overall) \<Rightarrow>
        if n < length xs div 5
        then (lowFreq + level (xs ! n), midFreq, highFreq, overall + level (xs ! n))
        else if n < (3 * length xs) div 5
        then (lowFreq, midFreq + level (xs ! n), highFreq, overall + level (xs ! n))
        else (lowFreq, midFreq, highFreq + level (xs ! n), overall + level (xs ! n)))"
  by (simp add: bandSums_def Let_def split: prod.splits)

lemma bandSums_0: "bandSums xs 0 = (0, 0, 0, 0)"
  by (simp add: bandSums_def)

lemma bandSums_bounds:
  "case bandSums xs n of (lo, mi, hi, ov) \<Rightarrow>
     0 \<le> lo \<and> lo \<le> of_nat (min n (length xs div 5))
   \<and> 0 \<le> mi \<and> mi \<le> of_nat (min n ((3 * length xs) div 5) - min n (length xs div 5))
   \<and> 0 \<le> hi \<and> hi \<le> of_nat (n - min n ((3 * length xs) div 5))
   \<and> 0 \<le> ov \<and> ov \<le> of_nat n"
proof (induction n)
  case 0
  then show ?case by (simp add: bandSums_0)
next
  case (Suc n)
  obtain lo mi hi ov where b: "bandSums xs n = (lo, mi, hi, ov)"
    by (cases "bandSums xs n") auto
  have l0: "0 \<le> level (xs ! n)" and l1: "level (xs ! n) \<le> 1"
    by (rule level_ge0, rule level_le1)
  have le: "length xs div 5 \<le> (3 * length xs) div 5" by simp
  from Suc b have ih:
    "0 \<le> lo" "lo \<le> of_nat (min n (length xs div 5))"
    "0 \<le> mi" "mi \<le> of_nat (min n ((3 * length xs) div 5) - min n (length xs div 5))"
    "0 \<le> hi" "hi \<le> of_nat (n - min n ((3 * length xs) div 5))"
    "0 \<le> ov" "ov \<le> of_nat n"
    by simp_all
  consider (low) "n < length xs div 5"
    | (mid) "\<not> n < length xs div 5" "n < (3 * length xs) div 5"
    | (high) "\<not> n < length xs div 5" "\<not> n < (3 * length xs) div 5"
    by blast
  then show ?case
  proof cases
    case low
    then have m: "min n (length xs div 5) = n" "min (Suc n) (length xs div 5) = Suc n"
      "min n ((3 * length xs) div 5) = n" "min (Suc n) ((3 * length xs) div 5) = Suc n"
      using le by simp_all
    show ?thesis using low ih l0 l1 unfolding bandSums_Suc b m by simp
  next
    case mid
    then have m: "min n (length xs div 5) = length xs div 5" "min (Suc n) (length xs div 5) = length xs div 5"
      "min n ((3 * length xs) div 5) = n" "min (Suc n) ((3 * length xs) div 5) = Suc n"
      by simp_all
    have "Suc n - length xs div 5 = Suc (n - length xs div 5)" using mid by simp
    then show ?thesis using mid ih l0 l1 unfolding bandSums_Suc b m by simp
  next
    case high
    then have m: "min n (length xs div 5) = length xs div 5" "min (Suc n) (length xs div 5) = length xs div 5"
      "min n ((3 * length xs) div 5) = (3 * length xs) div 5" "min (Suc n) ((3 * length xs) div 5) = (3 * length xs) div 5"
      using le by simp_all
    have "Suc n - (3 * length xs) div 5 = Suc (n - (3 * length xs) div 5)" using high by simp
    then show ?thesis using high ih l0 l1 unfolding bandSums_Suc b m by simp
  qed
qed


lemma levelSums_Suc:
  "levelSums xs (Suc n) =
     (case levelSums xs n of (averageLevel, lowFreqAvg, highFreqAvg) \<Rightarrow>
        if n < length xs div 3
        then (averageLevel + level (xs ! n), lowFreqAvg + level (xs ! n), highFreqAvg)
        else if (length xs * 2) div 3 \<le> n
        then (averageLevel + level (xs ! n), lowFreqAvg, highFreqAvg + level (xs ! n))
        else (averageLevel + level (xs ! n), lowFreqAvg, highFreqAvg))"
  by (simp add: levelSums_def Let_def split: prod.splits)

lemma levelSums_0: "levelSums xs 0 = (0, 0, 0)"
  by (simp add: levelSums_def)

lemma levelSums_bounds:
  "case levelSums xs n of (av, lo, hi) \<Rightarrow>
     0 \<le> av \<and> av \<le> of_nat n
   \<and> 0 \<le> lo \<and> lo \<le> of_nat (min n (length xs div 3))
   \<and> 0 \<le> hi \<and> hi \<le> of_nat (n - min n ((length xs * 2) div 3))"
proof (induction n)
  case 0
  then show ?case by (simp add: levelSums_0)
next
  case (Suc n)
  obtain av lo hi where b: "levelSums xs n = (av, lo, hi)"
    by (cases "levelSums xs n") auto
  have l0: "0 \<le> level (xs ! n)" and l1: "level (xs ! n) \<le> 1"
    by (rule level_ge0, rule level_le1)
  have le: "length xs div 3 \<le> (length xs * 2) div 3" by simp
  from Suc b have ih:
    "0 \<le> av" "av \<le> of_nat n"
    "0 \<le> lo" "lo \<le> of_nat (min n (length xs div 3))"
    "0 \<le> hi" "hi \<le> of_nat (n - min n ((length xs * 2) div 3))"
    by simp_all
  consider (low) "n < length xs div 3"
    | (mid) "\<not> n < length xs div 3" "\<not> (length xs * 2) div 3 \<le> n"
    | (high) "\<not> n < length xs div 3" "(length xs * 2) div 3 \<le> n"
    by blast
  then show ?case
  proof cases
    case low
    then have m: "min n (length xs div 3) = n" "min (Suc n) (length xs div 3) = Suc n"
      "min n ((length xs * 2) div 3) = n" "min (Suc n) ((length xs * 2) div 3) = Suc n"
      using le by simp_all
    show ?thesis using low ih l0 l1 unfolding levelSums_Suc b m by simp
  next
    case mid
    then have m: "min n (length xs div 3) = length xs div 3"
      "min (Suc n) (length xs div 3) = length xs div 3"
      "min n ((length xs * 2) div 3) = n" "min (Suc n) ((length xs * 2) div 3) = Suc n"
      by simp_all
    show ?thesis using mid ih l0 l1 unfolding levelSums_Suc b m by simp
  next
    case high
    then have m: "min n (length xs div 3) = length xs div 3"
      "min (Suc n) (length xs div 3) = length xs div 3"
      "min n ((length xs * 2) div 3) = (length xs * 2) div 3"
      "min (Suc n) ((length xs * 2) div 3) = (length xs * 2) div 3"
      by simp_all
    have "Suc n - (length xs * 2) div 3 = Suc (n - (length xs * 2) div 3)" using high by simp
    then show ?thesis using high ih l0 l1 unfolding levelSums_Suc b m by simp
  qed
qed

lemma level_zero: "level 0 = 0"
  by (simp add: level_def)

lemma bandSums_zero: "(\<forall>i<n. xs ! i = 0) \<Longrightarrow> bandSums xs n = (0, 0, 0, 0)"
  by (induction n) (simp_all add: bandSums_0 bandSums_Suc level_zero)

lemma levelSums_zero: "(\<forall>i<n. xs ! i = 0) \<Longrightarrow> levelSums xs n = (0, 0, 0)"
  by (induction n) (simp_all add: levelSums_0 levelSums_Suc level_zero)

lemma unitLevel_jsdivn:
  assumes "0 \<le> x" and "x \<le> of_nat n" and "0 < n"
  shows "unitLevel (jsdivn (Fin x) n)"
proof -
  have "x / of_nat n \<le> 1" using assms by (simp add: divide_le_eq_1)
  moreover have "0 \<le> x / of_nat n" using assms by simp
  ultimately show ?thesis using assms by (simp add: unitLevel_def)
qed

lemma unitLevel_smoothBand:
  assumes "unitLevel p" and "unitLevel r"
  shows "unitLevel (smoothBand p r)"
proof -
  from assms obtain a b where p: "p = Fin a" and r: "r = Fin b"
    and a: "0 \<le> a" "a \<le> 1" and b: "0 \<le> b" "b \<le> 1"
    by (auto simp: unitLevel_def split: jsnum.splits)
  show ?thesis
  proof (cases "a = 0")
    case True
    with p r b show ?thesis by (simp add: smoothBand_def jsor_def jssub_def unitLevel_def)
  next
    case False
    have "0 \<le> a + (b - a) * (1 / 10)" "a + (b - a) * (1 / 10) \<le> 1"
      using a b by (simp_all add: field_simps)
    with False p r show ?thesis
      by (simp add: smoothBand_def jsor_def jssub_def unitLevel_def Let_def)
  qed
qed

lemma shaderBands_unit:
  assumes "5 \<le> length xs"
  shows "case shaderBands xs of (lo, mi, hi, ov) \<Rightarrow>
           unitLevel lo \<and> unitLevel mi \<and> unitLevel hi \<and> unitLevel ov"
proof -
  obtain lo mi hi ov where b: "bandSums xs (length xs) = (lo, mi, hi, ov)"
    by (cases "bandSums xs (length xs)") auto
  have le: "length xs div 5 \<le> length xs" "(3 * length xs) div 5 \<le> length xs" by simp_all
  from bandSums_bounds [where xs = xs and n = "length xs"] b le
  have bounds: "0 \<le> lo" "lo \<le> of_nat (length xs div 5)"
    "0 \<le> mi" "mi \<le> of_nat ((3 * length xs) div 5 - length xs div 5)"
    "0 \<le> hi" "hi \<le> of_nat (length xs - (3 * length xs) div 5)"
    "0 \<le> ov" "ov \<le> of_nat (length xs)"
    by (simp_all add: min_absorb2)
  have pos: "0 < length xs div 5" "0 < (3 * length xs) div 5 - length xs div 5"
    "0 < length xs - (3 * length xs) div 5" "0 < length xs"
    using assms by auto
  show ?thesis
    unfolding shaderBands_def Let_def b prod.case
    using bounds pos by (intro conjI unitLevel_jsdivn)
qed

lemma audioLevels_unit:
  assumes "3 \<le> length xs"
  shows "case audioLevels xs of (av, lo, hi) \<Rightarrow> unitLevel av \<and> unitLevel lo \<and> unitLevel hi"
proof -
  obtain av lo hi where b: "levelSums xs (length xs) = (av, lo, hi)"
    by (cases "levelSums xs (length xs)") auto
  have le: "length xs div 3 \<le> length xs" "(length xs * 2) div 3 \<le> length xs" by simp_all
  from levelSums_bounds [where xs = xs and n = "length xs"] b le
  have bounds: "0 \<le> av" "av \<le> of_nat (length xs)"
    "0 \<le> lo" "lo \<le> of_nat (length xs div 3)"
    "0 \<le> hi" "hi \<le> of_nat (length xs - (length xs * 2) div 3)"
    by (simp_all add: min_absorb2)
  have pos: "0 < length xs div 3" "0 < length xs - (length xs * 2) div 3" "0 < length xs"
    using assms by auto
  show ?thesis
    unfolding audioLevels_def b prod.case
    using bounds pos by (intro conjI unitLevel_jsdivn)
qed

lemma shaderBands_zero:
  assumes "5 \<le> length xs" and "\<forall>i<length xs. xs ! i = 0"
  shows "shaderBands xs = (Fin 0, Fin 0, Fin 0, Fin 0)"
proof -
  have pos: "0 < length xs div 5" "0 < (3 * length xs) div 5 - length xs div 5"
    "0 < length xs - (3 * length xs) div 5" "0 < length xs"
    using assms(1) by auto
  then show ?thesis
    by (simp add: shaderBands_def Let_def bandSums_zero [OF assms(2)])
qed

lemma audioLevels_zero:
  assumes "3 \<le> length xs" and "\<forall>i<length xs. xs ! i = 0"
  shows "audioLevels xs = (Fin 0, Fin 0, Fin 0)"
proof -
  have pos: "0 < length xs div 3" "0 < length xs - (length xs * 2) div 3" "0 < length xs"
    using assms(1) by auto
  then show ?thesis
    by (simp add: audioLevels_def levelSums_zero [OF assms(2)])
qed

lemma length_getByteFrequencyData: "length (getByteFrequencyData bins array) = length array"
  by (simp add: getByteFrequencyData_def)

lemma updateShadersVisualizer_smoothed:
  assumes "analyser s" and "shaderMaterial s = Some u" and "audioDataArray s = Some array"
    and "shaderBands (getByteFrequencyData bins array) = (lo, mi, hi, ov)"
  shows "lowFreqSmoothed (updateShadersVisualizer bins delta s) = smoothBand (lowFreqSmoothed s) lo"
    and "midFreqSmoothed (updateShadersVisualizer bins delta s) = smoothBand (midFreqSmoothed s) mi"
    and "highFreqSmoothed (updateShadersVisualizer bins delta s) = smoothBand (highFreqSmoothed s) hi"
    and "overallSmoothed (updateShadersVisualizer bins delta s) = smoothBand (overallSmoothed s) ov"
    and "shaderMaterial (updateShadersVisualizer bins delta s) =
           Some (u\<lparr> time := shaderTime s + delta,
                    audioLevel := smoothBand (overallSmoothed s) ov,
                    audioLowFreq := smoothBand (lowFreqSmoothed s) lo,
                    audioHighFreq := smoothBand (highFreqSmoothed s) hi \<rparr>)"
  using assms by (simp_all add: updateShadersVisualizer_def Let_def)

text \<open>
  C2, as the code has it. For a spectrum of at least five samples (the arrays of the
  program have 128), the band levels of both partitions are finite numbers in [0,1], an
  all-zero spectrum gives all-zero levels, and \<open>updateShadersVisualizer\<close> keeps the
  smoothed levels and the levels it writes to the shader in [0,1]. No division by zero
  happens for these lengths. Nothing guards the divisions for shorter spectra.
\<close>

theorem band_levels_unit_interval:
  assumes "5 \<le> length xs"
  shows "(case shaderBands xs of (lo, mi, hi, ov) \<Rightarrow>
            unitLevel lo \<and> unitLevel mi \<and> unitLevel hi \<and> unitLevel ov)
       \<and> (case audioLevels xs of (av, lo, hi) \<Rightarrow> unitLevel av \<and> unitLevel lo \<and> unitLevel hi)
       \<and> ((\<forall>i<length xs. xs ! i = 0) \<longrightarrow>
            shaderBands xs = (Fin 0, Fin 0, Fin 0, Fin 0)
            \<and> audioLevels xs = (Fin 0, Fin 0, Fin 0))
       \<and> (analyser s \<and> shaderMaterial s \<noteq> None \<and> audioDataArray s = Some xs \<and> smoothedUnit s \<longrightarrow>
            smoothedUnit (updateShadersVisualizer bins delta s)
            \<and> uniformsUnit (updateShadersVisualizer bins delta s))"
proof (intro conjI impI)
  show "case shaderBands xs of (lo, mi, hi, ov) \<Rightarrow>
          unitLevel lo \<and> unitLevel mi \<and> unitLevel hi \<and> unitLevel ov"
    using assms by (rule shaderBands_unit)
next
  from assms have "3 \<le> length xs" by simp
  then show "case audioLevels xs of (av, lo, hi) \<Rightarrow> unitLevel av \<and> unitLevel lo \<and> unitLevel hi"
    by (rule audioLevels_unit)
next
  assume "\<forall>i<length xs. xs ! i = 0"
  with assms show "shaderBands xs = (Fin 0, Fin 0, Fin 0, Fin 0)"
    by (rule shaderBands_zero)
next
  assume z: "\<forall>i<length xs. xs ! i = 0"
  from assms have "3 \<le> length xs" by simp
  then show "audioLevels xs = (Fin 0, Fin 0, Fin 0)"
    using z by (rule audioLevels_zero)
next
  assume a: "analyser s \<and> shaderMaterial s \<noteq> None \<and> audioDataArray s = Some xs \<and> smoothedUnit s"
  then obtain u where u: "shaderMaterial s = Some u" by auto
  obtain lo mi hi ov where b: "shaderBands (getByteFrequencyData bins xs) = (lo, mi, hi, ov)"
    by (cases "shaderBands (getByteFrequencyData bins xs)") auto
  from assms have "5 \<le> length (getByteFrequencyData bins xs)"
    by (simp add: length_getByteFrequencyData)
  from shaderBands_unit [OF this] b
  have raw: "unitLevel lo" "unitLevel mi" "unitLevel hi" "unitLevel ov" by simp_all
  from a have sm: "unitLevel (lowFreqSmoothed s)" "unitLevel (midFreqSmoothed s)"
    "unitLevel (highFreqSmoothed s)" "unitLevel (overallSmoothed s)"
    by (simp_all add: smoothedUnit_def)
  note upd = updateShadersVisualizer_smoothed [OF _ u _ b, of delta]
  from a have an: "analyser s" and ar: "audioDataArray s = Some xs" by simp_all
  show "smoothedUnit (updateShadersVisualizer bins delta s)"
    unfolding smoothedUnit_def upd(1-4) [OF an ar]
    using raw sm by (intro conjI unitLevel_smoothBand)
  show "uniformsUnit (updateShadersVisualizer bins delta s)"
    unfolding uniformsUnit_def upd(5) [OF an ar]
    using raw sm by (simp add: unitLevel_smoothBand)
qed

text \<open>
  C2 as stated fails for the empty spectrum: every band level is \<open>0/0\<close>, which is \<open>NaN\<close>
  and not a level in [0,1].
\<close>

theorem band_levels_empty_counterexample:
  "shaderBands [] = (NaN, NaN, NaN, NaN) \<and> audioLevels [] = (NaN, NaN, NaN) \<and> \<not> unitLevel NaN"
  by (simp add: shaderBands_def audioLevels_def bandSums_def levelSums_def ofsign_def
      unitLevel_def)

theorem band_levels_unit_interval_witness:
  "shaderBands (replicate 128 0) = (Fin 0, Fin 0, Fin 0, Fin 0)
   \<and> audioLevels (replicate 128 0) = (Fin 0, Fin 0, Fin 0)
   \<and> smoothedUnit (updateShadersVisualizer (replicate 128 255) (1 / 60) shaderExample)
   \<and> uniformsUnit (updateShadersVisualizer (replicate 128 255) (1 / 60) shaderExample)"
proof -
  have h: "5 \<le> length (replicate 128 (0 :: 8 word))"
    and z: "\<forall>i<length (replicate 128 (0 :: 8 word)). replicate 128 (0 :: 8 word) ! i = 0"
    by simp_all
  have e: "analyser shaderExample \<and> shaderMaterial shaderExample \<noteq> None
           \<and> audioDataArray shaderExample = Some (replicate 128 0) \<and> smoothedUnit shaderExample"
    by (simp add: shaderExample_def constructorFields_def smoothedUnit_def unitLevel_def)
  from band_levels_unit_interval [OF h, of shaderExample "replicate 128 255" "1 / 60"] z e
  show ?thesis by blast
qed

section \<open>Witnesses for the beat detector\<close>

theorem bass_beat_hold_witness:
  "bassBeatFires (tickData (loudTicks ! 0)) (tickTime (loudTicks ! 0))
     (runTicks powStub (take 0 loudTicks) initBeatDetectionVars)
   \<and> \<not> bassBeatFires (tickData (loudTicks ! 1)) (tickTime (loudTicks ! 1))
         (runTicks powStub (take 1 loudTicks) initBeatDetectionVars)"
proof -
  have h1: "0 \<le> beatHoldTime initBeatDetectionVars"
    by (simp add: initBeatDetectionVars_def)
  have h2: "(0::nat) < 1" and h3: "1 < length loudTicks"
    by (simp_all add: loudTicks_def)
  have h4: "bassBeatFires (tickData (loudTicks ! 0)) (tickTime (loudTicks ! 0))
              (runTicks powStub (take 0 loudTicks) initBeatDetectionVars)"
    by code_simp
  have h5: "tickTime (loudTicks ! 1) - tickTime (loudTicks ! 0)
              \<le> beatHoldTime initBeatDetectionVars"
    by (simp add: loudTicks_def tickTime_def initBeatDetectionVars_def)
  from bass_beat_hold [OF h1 h2 h3 h4 h5] h4 show ?thesis by simp
qed

theorem energyHistory_bounded_fifo_witness:
  "length (energyHistory (runTicks powStub loudTicks initBeatDetectionVars)) \<le> 30
   \<and> energyHistory (detectBeats powStub [255, 255, 255, 255, 255] (1 / 60) 1 initBeatDetectionVars) =
       replicate 29 (Fin 0) @ [Fin 1]"
proof -
  have h: "length (energyHistory initBeatDetectionVars) \<le> 30"
    by (simp add: initBeatDetectionVars_def)
  have e: "bassEnergyOf [255, 255, 255, 255, 255] = Fin 1"
    by code_simp
  have r: "tl (replicate 30 (Fin 0 :: jsnum)) = replicate 29 (Fin 0)"
    by code_simp
  from energyHistory_bounded_fifo [OF h, of powStub loudTicks "[255, 255, 255, 255, 255]" "1 / 60" 1]
  show ?thesis by (simp add: initBeatDetectionVars_def e r)
qed

section \<open>Properties of the particle engine\<close>

lemma find_filter: "find P xs = (case filter P xs of [] \<Rightarrow> None | x # _ \<Rightarrow> Some x)"
  by (induction xs) auto

lemma freeSlot_freeSlots:
  "freeSlot s = (case freeSlots s of [] \<Rightarrow> None | j # _ \<Rightarrow> Some j)"
  by (simp add: freeSlot_def freeSlots_def find_filter)

lemma activateParticle_fields:
  "particleLifetimes (activateParticle setHSL b t d idx s) =
     (particleLifetimes s)[idx := particleLifespan s]"
  "maxParticles (activateParticle setHSL b t d idx s) = maxParticles s"
  "particleLifespan (activateParticle setHSL b t d idx s) = particleLifespan s"
  "particleCount (activateParticle setHSL b t d idx s) = particleCount s"
  by (simp_all add: activateParticle_def Let_def split: prod.splits)

lemma distinct_freeSlots: "distinct (freeSlots s)"
  by (simp add: freeSlots_def)

lemma freeSlots_activate:
  assumes "0 \<le> particleLifespan s" and "freeSlots s = idx # rest"
  shows "freeSlots (activateParticle setHSL b t d idx s) = rest"
proof -
  have "freeSlots (activateParticle setHSL b t d idx s) =
        filter (\<lambda>j. j \<noteq> idx) (freeSlots s)"
    unfolding freeSlots_def activateParticle_fields filter_filter
  proof (rule filter_cong [OF refl])
    fix j
    show "(j < length ((particleLifetimes s)[idx := particleLifespan s])
           \<and> (particleLifetimes s)[idx := particleLifespan s] ! j < 0) =
          ((j < length (particleLifetimes s) \<and> particleLifetimes s ! j < 0) \<and> j \<noteq> idx)"
      using assms(1) by (cases "j = idx") auto
  qed
  moreover have "idx \<notin> set rest"
    using distinct_freeSlots [of s] assms(2) by simp
  ultimately show ?thesis using assms(2) by (auto simp: filter_id_conv)
qed

lemma emitLoop_lifetimes:
  assumes "0 \<le> particleLifespan s"
  shows "particleLifetimes (emitLoop setHSL draws b t n i s) =
           markSlots (particleLifespan s) (take n (freeSlots s)) (particleLifetimes s)
       \<and> freeSlots (emitLoop setHSL draws b t n i s) = drop n (freeSlots s)
       \<and> maxParticles (emitLoop setHSL draws b t n i s) = maxParticles s
       \<and> particleLifespan (emitLoop setHSL draws b t n i s) = particleLifespan s"
  using assms
proof (induction n arbitrary: i s)
  case 0
  then show ?case by (simp add: markSlots_def)
next
  case (Suc n)
  show ?case
  proof (cases "freeSlots s")
    case Nil
    then show ?thesis by (simp add: freeSlot_freeSlots markSlots_def)
  next
    case (Cons idx rest)
    let ?s1 = "activateParticle setHSL b t (draws i) idx s"
    have f1: "freeSlots ?s1 = rest"
      using Suc.prems Cons by (rule freeSlots_activate)
    have l1: "0 \<le> particleLifespan ?s1"
      using Suc.prems by (simp add: activateParticle_fields)
    from Suc.IH [OF l1, of "Suc i"] f1 Cons show ?thesis
      by (simp add: freeSlot_freeSlots activateParticle_fields markSlots_def)
  qed
qed

lemma length_markSlots: "length (markSlots L js lt) = length lt"
  unfolding markSlots_def by (induction js arbitrary: lt) simp_all

lemma nth_markSlots:
  "j < length lt \<Longrightarrow> markSlots L js lt ! j = (if j \<in> set js then L else lt ! j)"
  unfolding markSlots_def
proof (induction js arbitrary: lt)
  case Nil
  then show ?case by simp
next
  case (Cons a js)
  then show ?case by (cases "j = a") auto
qed

lemma length_freeSlots:
  assumes "length (particleLifetimes s) = maxParticles s"
  shows "length (freeSlots s) + activeCount s = maxParticles s"
proof -
  let ?xs = "particleLifetimes s"
  have "freeSlots s = filter (\<lambda>j. ?xs ! j < 0) [0..<length ?xs]"
    unfolding freeSlots_def assms [symmetric] by (rule filter_cong) auto
  then have "length (freeSlots s) = length (map (nth ?xs) (filter ((\<lambda>l. l < 0) \<circ> nth ?xs) [0..<length ?xs]))"
    by (simp add: comp_def)
  also have "\<dots> = length (filter (\<lambda>l. l < 0) (map (nth ?xs) [0..<length ?xs]))"
    by (simp only: filter_map)
  also have "\<dots> = length (filter (\<lambda>l. l < 0) ?xs)"
    by (simp only: map_nth)
  finally show ?thesis
    using sum_length_filter_compl [of "\<lambda>l. l < 0" ?xs] assms
    by (simp add: activeCount_def)
qed


lemma emitParticles_lifetimes:
  assumes "0 \<le> particleLifespan s"
  shows "particleLifetimes (emitParticles setHSL draws count b t s) =
           markSlots (particleLifespan s) (take (nat (particlesToEmit count b s)) (freeSlots s))
             (particleLifetimes s)"
    and "freeSlots (emitParticles setHSL draws count b t s) =
           drop (nat (particlesToEmit count b s)) (freeSlots s)"
    and "maxParticles (emitParticles setHSL draws count b t s) = maxParticles s"
  using emitLoop_lifetimes [OF assms] by (simp_all add: emitParticles_def)

lemma emitParticles_activeCount:
  assumes "0 \<le> particleLifespan s" and "length (particleLifetimes s) = maxParticles s"
  shows "activeCount (emitParticles setHSL draws count b t s) =
           activeCount s + min (nat (particlesToEmit count b s)) (length (freeSlots s))"
proof -
  let ?s' = "emitParticles setHSL draws count b t s"
  have len: "length (particleLifetimes ?s') = maxParticles ?s'"
    using assms by (simp add: emitParticles_lifetimes length_markSlots)
  from length_freeSlots [OF len] length_freeSlots [OF assms(2)]
  show ?thesis
    using assms(1) by (simp add: emitParticles_lifetimes)
qed

lemma activeCount_createWaveVisualizer: "activeCount createWaveVisualizer = 0"
  by (simp add: activeCount_def createWaveVisualizer_def)

lemma length_freeSlots_createWaveVisualizer: "length (freeSlots createWaveVisualizer) = 3000"
  using length_freeSlots [of createWaveVisualizer]
  by (simp add: activeCount_createWaveVisualizer) (simp add: createWaveVisualizer_def)

lemma emitLoop_shape:
  "length (particleLifetimes (emitLoop setHSL draws b t n i s)) = length (particleLifetimes s)
   \<and> maxParticles (emitLoop setHSL draws b t n i s) = maxParticles s"
proof (induction n arbitrary: i s)
  case 0
  then show ?case by simp
next
  case (Suc n)
  then show ?case
    by (cases "freeSlot s") (simp_all add: activateParticle_fields)
qed

lemma emitCall_shape:
  "length (particleLifetimes (emitCall setHSL e s)) = length (particleLifetimes s)
   \<and> maxParticles (emitCall setHSL e s) = maxParticles s"
  by (simp add: emitCall_def emitParticles_def emitLoop_shape)

lemma emitAll_shape:
  "length (particleLifetimes (emitAll setHSL es s)) = length (particleLifetimes s)
   \<and> maxParticles (emitAll setHSL es s) = maxParticles s"
  unfolding emitAll_def
  by (induction es arbitrary: s) (simp_all add: emitCall_shape)

lemma activeCount_le: "activeCount s \<le> length (particleLifetimes s)"
  by (simp add: activeCount_def)

lemma emitLoop_full:
  assumes "freeSlots s = []"
  shows "emitLoop setHSL draws b t n i s = s"
  using assms by (cases n) (simp_all add: freeSlot_freeSlots)

lemma full_no_freeSlots:
  assumes "length (particleLifetimes s) = maxParticles s" and "activeCount s = maxParticles s"
  shows "freeSlots s = []"
  using length_freeSlots [OF assms(1)] assms(2) by simp

lemma freeSlots_createWaveVisualizer: "freeSlots createWaveVisualizer = [0..<3000]"
  by (simp add: freeSlots_def createWaveVisualizer_def filter_id_conv)


lemma log2Up_bounds:
  "1 \<le> x \<Longrightarrow> 0 \<le> log2Up x \<and> 2 ^ nat (log2Up x) \<le> x \<and> x < 2 * 2 ^ nat (log2Up x)"
proof (induction x rule: log2Up.induct)
  case (1 x)
  show ?case
  proof (cases "2 \<le> x")
    case True
    then have "1 \<le> x / 2" by simp
    from 1(1) [OF True this]
    have h: "0 \<le> log2Up (x / 2)" "2 ^ nat (log2Up (x / 2)) \<le> x / 2"
      "x / 2 < 2 * 2 ^ nat (log2Up (x / 2))"
      by simp_all
    have e: "log2Up x = log2Up (x / 2) + 1"
      using True by (subst log2Up.simps) simp
    have n: "nat (log2Up x) = Suc (nat (log2Up (x / 2)))"
      using h(1) e by simp
    show ?thesis
      using h e unfolding n by simp
  next
    case False
    then have "log2Up x = 0" by (subst log2Up.simps) simp
    with False 1(2) show ?thesis by simp
  qed
qed

lemma roundHalfEven_of_int: "roundHalfEven (of_int m) = m"
  by (simp add: roundHalfEven_def)

lemma roundDouble_of_int:
  assumes "0 \<le> k" and "k < 2 ^ 53"
  shows "roundDouble (of_int k) = of_int k"
proof (cases "k = 0")
  case True
  then show ?thesis by (simp add: roundDouble_def)
next
  case False
  with assms(1) have k1: "(1 :: rat) \<le> of_int k" by simp
  define e where "e = nat (log2Up (of_int k))"
  from log2Up_bounds [OF k1]
  have b: "0 \<le> log2Up (of_int k)" "(2 :: rat) ^ e \<le> of_int k" "of_int k < (2 :: rat) * 2 ^ e"
    by (simp_all add: e_def)
  have "(of_int ((2 :: int) ^ e) :: rat) \<le> of_int k" using b(2) by simp
  then have "(2 :: int) ^ e \<le> k" by (simp only: of_int_le_iff)
  from this assms(2) have "(2 :: int) ^ e < 2 ^ 53" by (rule le_less_trans)
  then have "e < 53" by (rule power_less_imp_less_exp [rotated]) simp
  then have e52: "e \<le> 52" by simp
  have le: "log2Up (of_int k) = int e" using b(1) by (simp add: e_def)
  have f: "floorLog2 \<bar>of_int k\<bar> = int e"
    using k1 assms(1) by (simp add: floorLog2_def le)
  define d where "d = 52 - e"
  have u: "pow2 (int e - 52) = 1 / 2 ^ d"
    using e52 by (auto simp add: pow2_def d_def nat_diff_distrib' dest: antisym)
  have i: "(of_int k :: rat) / pow2 (int e - 52) = of_int (k * 2 ^ d)"
    by (simp add: u)
  have m: "max (int e) (- 1022) = int e" by simp
  have n: "(of_int k :: rat) \<noteq> 0" using False by simp
  have "roundDouble (of_int k) =
          of_int (roundHalfEven (of_int k / pow2 (int e - 52))) * pow2 (int e - 52)"
    by (simp only: roundDouble_def f Let_def m n if_False)
  also have "\<dots> = of_int (k * 2 ^ d) * (1 / 2 ^ d)"
    unfolding i roundHalfEven_of_int by (simp only: u)
  also have "\<dots> = of_int k" by simp
  finally show ?thesis .
qed

lemma burst_without_bass:
  assumes "0 \<le> k" and "k < 2 ^ 53"
  shows "\<lfloor>dmul (of_int k) (dadd 1 0)\<rfloor> = k"
proof -
  have "roundDouble 1 = 1" using roundDouble_of_int [of 1] by simp
  then show ?thesis
    using roundDouble_of_int [OF assms] by (simp add: dmul_def dadd_def)
qed

lemma burst_examples:
  "\<lfloor>dmul 1 (dadd 1 1)\<rfloor> = 2"
  "\<lfloor>dmul 10 (dadd 1 0)\<rfloor> = 10"
  "\<lfloor>dmul 25 (dadd 1 (roundDouble (4 / 25)))\<rfloor> = 28"
  by code_simp+

text \<open>
  C3, as the code has it. A call of \<open>emitParticles\<close> activates the first \<open>n\<close> inactive
  slots in index order, or all of them when fewer are free, where \<open>n\<close> is
  \<open>min(Math.floor(count * (1 + bassIntensity)), maxParticles - particleCount)\<close> with the
  sum and the product rounded as doubles: each of these slots gets the lifetime
  \<open>particleLifespan\<close>, and no other slot changes. The number of activated particles is
  bounded by \<open>n\<close>, not by \<open>count\<close>; with \<open>bassIntensity = 0\<close> and an integer \<open>count\<close>
  from 0 to \<open>2^53\<close> the burst size \<open>Math.floor(count * (1 + bassIntensity))\<close> is \<open>count\<close>.
  The call always returns a state; a partial emission is no error.
\<close>

theorem emit_activates_first_free_slots:
  assumes "0 \<le> particleLifespan s" and "length (particleLifetimes s) = maxParticles s"
  shows "(\<forall>j<maxParticles s.
            particleLifetimes (emitParticles setHSL draws count b t s) ! j =
              (if j \<in> set (take (nat (particlesToEmit count b s)) (freeSlots s))
               then particleLifespan s else particleLifetimes s ! j))
       \<and> activeCount (emitParticles setHSL draws count b t s) =
           activeCount s + min (nat (particlesToEmit count b s)) (length (freeSlots s))
       \<and> activeCount (emitParticles setHSL draws count b t s) \<le>
           activeCount s + nat (particlesToEmit count b s)
       \<and> particlesToEmit count b s =
           min \<lfloor>roundDouble (count * roundDouble (1 + b))\<rfloor>
             (int (maxParticles s) - int (particleCount s))
       \<and> (b = 0 \<and> count = of_int k \<and> 0 \<le> k \<and> k < 2 ^ 53 \<longrightarrow>
            particlesToEmit count b s = min k (int (maxParticles s) - int (particleCount s)))"
proof -
  have "b = 0 \<and> count = of_int k \<and> 0 \<le> k \<and> k < 2 ^ 53 \<longrightarrow>
          particlesToEmit count b s = min k (int (maxParticles s) - int (particleCount s))"
    using burst_without_bass [of k]
    by (auto simp add: particlesToEmit_def simp del: power_numeral)
  then show ?thesis
    using assms
    by (simp add: emitParticles_lifetimes(1) nth_markSlots emitParticles_activeCount
        particlesToEmit_def dadd_def dmul_def del: power_numeral)
qed

text \<open>
  C3 as stated fails: on the fresh pool, \<open>emitParticles(1, 1, 0)\<close> activates two
  particles, the slots 0 and 1, which is more than \<open>count = 1\<close>.
\<close>

theorem emit_more_than_count_counterexample:
  "activeCount createWaveVisualizer = 0
   \<and> activeCount (emitParticles hslStub drawStub 1 1 0 createWaveVisualizer) = 2
   \<and> particleLifetimes createWaveVisualizer ! 0 = - 1
   \<and> particleLifetimes createWaveVisualizer ! 1 = - 1
   \<and> particleLifetimes (emitParticles hslStub drawStub 1 1 0 createWaveVisualizer) ! 0 = 3
   \<and> particleLifetimes (emitParticles hslStub drawStub 1 1 0 createWaveVisualizer) ! 1 = 3"
proof -
  have l: "0 \<le> particleLifespan createWaveVisualizer"
    and m: "length (particleLifetimes createWaveVisualizer) = maxParticles createWaveVisualizer"
    by (simp_all add: createWaveVisualizer_def)
  have p: "particlesToEmit 1 1 createWaveVisualizer = 2"
    by (simp add: particlesToEmit_def burst_examples createWaveVisualizer_def)
  have t: "take 2 [0..<3000] = [0, Suc 0]"
    by (subst take_upt) simp_all
  have c: "activeCount (emitParticles hslStub drawStub 1 1 0 createWaveVisualizer) = 2"
    using emitParticles_activeCount [OF l m, of hslStub drawStub 1 1 0]
    by (simp add: p activeCount_createWaveVisualizer length_freeSlots_createWaveVisualizer)
  have e: "particleLifetimes (emitParticles hslStub drawStub 1 1 0 createWaveVisualizer) =
        (replicate 3000 (- 1))[0 := 3, Suc 0 := 3]"
    using emitParticles_lifetimes(1) [OF l, of hslStub drawStub 1 1 0]
    unfolding p freeSlots_createWaveVisualizer
    by (simp add: t markSlots_def createWaveVisualizer_def)
  have i: "particleLifetimes createWaveVisualizer = replicate 3000 (- 1)"
    by (simp add: createWaveVisualizer_def)
  show ?thesis
    by (simp add: c e i activeCount_createWaveVisualizer)
qed

theorem emit_activates_first_free_slots_witness:
  "particlesToEmit 10 0 createWaveVisualizer = 10
   \<and> activeCount (emitParticles hslStub drawStub 10 0 0 createWaveVisualizer) = 10
   \<and> particleLifetimes (emitParticles hslStub drawStub 10 0 0 createWaveVisualizer) ! 9 = 3
   \<and> particleLifetimes (emitParticles hslStub drawStub 10 0 0 createWaveVisualizer) ! 10 = - 1
   \<and> particlesToEmit 25 (roundDouble (4 / 25)) createWaveVisualizer = 28
   \<and> activeCount (emitParticles hslStub drawStub 25 (roundDouble (4 / 25)) 0
        createWaveVisualizer) = 28
   \<and> particleLifetimes (emitParticles hslStub drawStub 25 (roundDouble (4 / 25)) 0
        createWaveVisualizer) ! 27 = 3
   \<and> particleLifetimes (emitParticles hslStub drawStub 25 (roundDouble (4 / 25)) 0
        createWaveVisualizer) ! 28 = - 1"
proof -
  have l: "0 \<le> particleLifespan createWaveVisualizer"
    and m: "length (particleLifetimes createWaveVisualizer) = maxParticles createWaveVisualizer"
    by (simp_all add: createWaveVisualizer_def)
  have p: "particlesToEmit 10 0 createWaveVisualizer = 10"
    by (simp add: particlesToEmit_def burst_examples createWaveVisualizer_def)
  have q: "particlesToEmit 25 (roundDouble (4 / 25)) createWaveVisualizer = 28"
    by (simp add: particlesToEmit_def burst_examples createWaveVisualizer_def)
  have t: "set (take 10 [0..<3000]) = {0..<10}" "set (take 28 [0..<3000]) = {0..<28}"
    by (subst take_upt, simp_all)+
  have mx: "maxParticles createWaveVisualizer = 3000"
    and ls: "particleLifespan createWaveVisualizer = 3"
    and lt: "particleLifetimes createWaveVisualizer = replicate 3000 (- 1)"
    by (simp_all add: createWaveVisualizer_def)
  from emit_activates_first_free_slots [OF l m, of hslStub drawStub 10 0 0 10]
    emit_activates_first_free_slots [OF l m, of hslStub drawStub 25 "roundDouble (4 / 25)" 0 0]
  show ?thesis
    unfolding p q freeSlots_createWaveVisualizer
    by (simp add: t mx ls lt activeCount_createWaveVisualizer)
qed

text \<open>
  C5. The pool is the lifetimes array, which \<open>createWaveVisualizer\<close> allocates with
  \<open>maxParticles\<close> (3000) slots. No sequence of emission calls changes its length, so the
  number of active slots stays at most \<open>maxParticles\<close>; a call on a pool without an
  inactive slot changes nothing.
\<close>

theorem pool_never_overflows:
  assumes "length (particleLifetimes s) = maxParticles s"
  shows "activeCount (emitAll setHSL es s) \<le> maxParticles s
       \<and> length (particleLifetimes (emitAll setHSL es s)) = maxParticles s
       \<and> maxParticles (emitAll setHSL es s) = maxParticles s
       \<and> (activeCount s = maxParticles s \<longrightarrow>
            emitParticles setHSL draws count b t s = s)"
proof (intro conjI impI)
  show len: "length (particleLifetimes (emitAll setHSL es s)) = maxParticles s"
    using assms by (simp add: emitAll_shape)
  show "activeCount (emitAll setHSL es s) \<le> maxParticles s"
    using activeCount_le [of "emitAll setHSL es s"] len by simp
  show "maxParticles (emitAll setHSL es s) = maxParticles s"
    by (simp add: emitAll_shape)
next
  assume "activeCount s = maxParticles s"
  with assms have "freeSlots s = []" by (rule full_no_freeSlots)
  then show "emitParticles setHSL draws count b t s = s"
    by (simp add: emitParticles_def emitLoop_full)
qed


theorem pool_never_overflows_witness:
  "activeCount (emitAll hslStub [(drawStub, 10, 0, 0), (drawStub, 5000, 1, 0)]
      createWaveVisualizer) \<le> 3000
   \<and> length (particleLifetimes (emitAll hslStub [(drawStub, 10, 0, 0), (drawStub, 5000, 1, 0)]
        createWaveVisualizer)) = 3000
   \<and> activeCount fullWave = 3000
   \<and> emitParticles hslStub drawStub 10 1 0 fullWave = fullWave"
proof -
  have m: "length (particleLifetimes createWaveVisualizer) = maxParticles createWaveVisualizer"
    and mx: "maxParticles createWaveVisualizer = 3000"
    by (simp_all add: createWaveVisualizer_def)
  have f: "length (particleLifetimes fullWave) = maxParticles fullWave"
    and fx: "maxParticles fullWave = 3000"
    and fa: "activeCount fullWave = 3000"
    by (simp_all add: fullWave_def createWaveVisualizer_def activeCount_def)
  from pool_never_overflows [OF m, of hslStub "[(drawStub, 10, 0, 0), (drawStub, 5000, 1, 0)]"]
    pool_never_overflows [OF f, of hslStub "[]" drawStub 10 1 0]
  show ?thesis by (simp add: mx fx fa)
qed

lemma particleSize_Fin:
  "particleSize p (Fin lf) = Fin (specSize (initialSize p) (frameInteractions p) lf)"
  by (simp add: particleSize_def specSize_def sizeFactor_def fadeIn_def fadeOut_def min_def)

lemma specSize_full:
  "9 / 10 \<le> lf \<Longrightarrow> specSize a n lf = a * (1 + (1 / 10) * of_nat n)"
  by (simp add: specSize_def min_def)

lemma hitFrame_keeps:
  "sizes (hitFrame setHSL oldZ i j f s) = sizes s"
  "particleLifetimes (hitFrame setHSL oldZ i j f s) = particleLifetimes s"
  "particleLifespan (hitFrame setHSL oldZ i j f s) = particleLifespan s"
  "maxParticles (hitFrame setHSL oldZ i j f s) = maxParticles s"
  by (simp_all add: hitFrame_def Let_def split: prod.splits option.splits)

lemma hitFrame_particle:
  assumes "waveParticles s i = Some p"
  shows "\<exists>q. waveParticles (hitFrame setHSL oldZ i j f s) i = Some q
           \<and> initialSize q = initialSize p
           \<and> frameInteractions p \<le> frameInteractions q"
  using assms by (simp add: hitFrame_def Let_def split: prod.splits option.splits)

lemma hitFrame_other:
  "k \<noteq> i \<Longrightarrow> waveParticles (hitFrame setHSL oldZ i j f s) k = waveParticles s k"
  by (simp add: hitFrame_def Let_def split: prod.splits option.splits)

lemma hitFrames_keeps:
  "sizes (hitFrames setHSL oldZ i j fs s) = sizes s
   \<and> particleLifetimes (hitFrames setHSL oldZ i j fs s) = particleLifetimes s
   \<and> particleLifespan (hitFrames setHSL oldZ i j fs s) = particleLifespan s
   \<and> maxParticles (hitFrames setHSL oldZ i j fs s) = maxParticles s"
  by (induction fs arbitrary: j s) (simp_all add: hitFrame_keeps)

lemma hitFrames_particle:
  "waveParticles s i = Some p \<Longrightarrow>
   \<exists>q. waveParticles (hitFrames setHSL oldZ i j fs s) i = Some q
      \<and> initialSize q = initialSize p
      \<and> frameInteractions p \<le> frameInteractions q"
proof (induction fs arbitrary: j s p)
  case Nil
  then show ?case by simp
next
  case (Cons f fs)
  from hitFrame_particle [OF Cons.prems, of setHSL oldZ j f]
  obtain q where q: "waveParticles (hitFrame setHSL oldZ i j f s) i = Some q"
    "initialSize q = initialSize p" "frameInteractions p \<le> frameInteractions q"
    by auto
  from Cons.IH [OF q(1), of "Suc j"] q(2,3) show ?case by auto
qed

lemma hitFrames_other:
  "k \<noteq> i \<Longrightarrow> waveParticles (hitFrames setHSL oldZ i j fs s) k = waveParticles s k"
  by (induction fs arbitrary: j s) (simp_all add: hitFrame_other)

lemma moveParticle_size:
  assumes "waveParticles s i = Some p" and "i < length (sizes s)"
  shows "\<exists>q. waveParticles (moveParticle setHSL delta i s) i = Some q
           \<and> initialSize q = initialSize p
           \<and> frameInteractions p \<le> frameInteractions q
           \<and> sizes (moveParticle setHSL delta i s) ! i =
               particleSize q (jsdivr (Fin (particleLifetimes s ! i)) (particleLifespan s))"
proof -
  obtain vx vy vz where v: "velocity p = (vx, vy, vz)" by (cases "velocity p") auto
  let ?s1 = "s\<lparr> positions :=
                   (positions s)[i * 3 := positions s ! (i * 3) + vx * delta,
                                 i * 3 + 1 := positions s ! (i * 3 + 1) + vy * delta,
                                 i * 3 + 2 := positions s ! (i * 3 + 2) + vz * delta] \<rparr>"
  let ?s2 = "hitFrames setHSL (positions s ! (i * 3 + 2)) i 0 (exhibitionFrames ?s1) ?s1"
  have k: "sizes ?s2 = sizes s" "particleLifetimes ?s2 = particleLifetimes s"
    "particleLifespan ?s2 = particleLifespan s"
    by (simp_all add: hitFrames_keeps)
  have "waveParticles ?s1 i = Some p" using assms(1) by simp
  from hitFrames_particle [OF this, of setHSL "positions s ! (i * 3 + 2)" 0 "exhibitionFrames ?s1"]
  obtain p1 where p1: "waveParticles ?s2 i = Some p1" "initialSize p1 = initialSize p"
    "frameInteractions p \<le> frameInteractions p1"
    by auto
  obtain wx wy wz where w: "velocity p1 = (wx, wy, wz)" by (cases "velocity p1") auto
  show ?thesis
    using assms k p1 w
    by (simp add: moveParticle_def v Let_def particleSize_def sizeFactor_def
        del: jsdivr.simps)
qed

lemma moveParticle_other:
  "particleLifetimes (moveParticle setHSL delta i s) = particleLifetimes s
   \<and> particleLifespan (moveParticle setHSL delta i s) = particleLifespan s
   \<and> maxParticles (moveParticle setHSL delta i s) = maxParticles s
   \<and> length (sizes (moveParticle setHSL delta i s)) = length (sizes s)
   \<and> (k \<noteq> i \<longrightarrow> sizes (moveParticle setHSL delta i s) ! k = sizes s ! k
                \<and> waveParticles (moveParticle setHSL delta i s) k = waveParticles s k)"
  by (simp add: moveParticle_def Let_def hitFrames_keeps hitFrames_other
      split: option.splits prod.splits)

lemma updateParticle_live:
  assumes "waveParticles s i = Some p" and "i < length (sizes s)"
    and "i < length (particleLifetimes s)"
    and "0 \<le> particleLifetimes s ! i" and "0 \<le> particleLifetimes s ! i - delta"
  shows "\<exists>q. waveParticles (snd (updateParticle setHSL delta i (c, s))) i = Some q
           \<and> initialSize q = initialSize p
           \<and> frameInteractions p \<le> frameInteractions q
           \<and> particleLifetimes (snd (updateParticle setHSL delta i (c, s))) ! i =
               particleLifetimes s ! i - delta
           \<and> sizes (snd (updateParticle setHSL delta i (c, s))) ! i =
               particleSize q
                 (jsdivr (Fin (particleLifetimes s ! i - delta)) (particleLifespan s))"
proof -
  let ?s1 = "s\<lparr> particleLifetimes :=
                   (particleLifetimes s)[i := particleLifetimes s ! i - delta] \<rparr>"
  have u: "snd (updateParticle setHSL delta i (c, s)) = moveParticle setHSL delta i ?s1"
    using assms(3-5) by (simp add: updateParticle_def Let_def not_less [symmetric])
  have "waveParticles ?s1 i = Some p" and "i < length (sizes ?s1)"
    using assms(1,2) by simp_all
  from moveParticle_size [OF this, of setHSL delta] assms(3) show ?thesis
    unfolding u by (auto simp add: moveParticle_other simp del: jsdivr.simps)
qed

lemma updateParticle_other:
  "particleLifespan (snd (updateParticle setHSL delta i (c, s))) = particleLifespan s
   \<and> maxParticles (snd (updateParticle setHSL delta i (c, s))) = maxParticles s
   \<and> length (particleLifetimes (snd (updateParticle setHSL delta i (c, s)))) =
       length (particleLifetimes s)
   \<and> length (sizes (snd (updateParticle setHSL delta i (c, s)))) = length (sizes s)
   \<and> (k \<noteq> i \<longrightarrow>
        particleLifetimes (snd (updateParticle setHSL delta i (c, s))) ! k = particleLifetimes s ! k
        \<and> sizes (snd (updateParticle setHSL delta i (c, s))) ! k = sizes s ! k
        \<and> waveParticles (snd (updateParticle setHSL delta i (c, s))) k = waveParticles s k)"
  using moveParticle_other [of setHSL delta i
          "s\<lparr> particleLifetimes := (particleLifetimes s)[i := particleLifetimes s ! i - delta] \<rparr>" k]
  by (simp add: updateParticle_def Let_def)

lemma particleLoop_Suc:
  "particleLoop setHSL delta (Suc n) s =
     updateParticle setHSL delta n
       (fst (particleLoop setHSL delta n s), snd (particleLoop setHSL delta n s))"
  by (simp add: particleLoop_def)

lemma particleLoop_untouched:
  "particleLifespan (snd (particleLoop setHSL delta n s)) = particleLifespan s
   \<and> maxParticles (snd (particleLoop setHSL delta n s)) = maxParticles s
   \<and> length (particleLifetimes (snd (particleLoop setHSL delta n s))) = length (particleLifetimes s)
   \<and> length (sizes (snd (particleLoop setHSL delta n s))) = length (sizes s)
   \<and> (n \<le> k \<longrightarrow>
        particleLifetimes (snd (particleLoop setHSL delta n s)) ! k = particleLifetimes s ! k
        \<and> sizes (snd (particleLoop setHSL delta n s)) ! k = sizes s ! k
        \<and> waveParticles (snd (particleLoop setHSL delta n s)) k = waveParticles s k)"
proof (induction n)
  case 0
  then show ?case by (simp add: particleLoop_def)
next
  case (Suc n)
  let ?c = "fst (particleLoop setHSL delta n s)" and ?s = "snd (particleLoop setHSL delta n s)"
  from updateParticle_other [of setHSL delta n ?c ?s k] Suc
  show ?case unfolding particleLoop_Suc by auto
qed

lemma particleLoop_size:
  assumes "waveParticles s i = Some p"
    and "i < length (sizes s)" and "i < length (particleLifetimes s)"
    and "0 \<le> particleLifetimes s ! i" and "0 \<le> particleLifetimes s ! i - delta"
  shows "i < n \<Longrightarrow>
         \<exists>q. waveParticles (snd (particleLoop setHSL delta n s)) i = Some q
           \<and> initialSize q = initialSize p
           \<and> frameInteractions p \<le> frameInteractions q
           \<and> particleLifetimes (snd (particleLoop setHSL delta n s)) ! i =
               particleLifetimes s ! i - delta
           \<and> sizes (snd (particleLoop setHSL delta n s)) ! i =
               particleSize q
                 (jsdivr (Fin (particleLifetimes s ! i - delta)) (particleLifespan s))"
proof (induction n)
  case 0
  then show ?case by simp
next
  case (Suc n)
  let ?c = "fst (particleLoop setHSL delta n s)" and ?s = "snd (particleLoop setHSL delta n s)"
  show ?case
  proof (cases "i = n")
    case True
    from particleLoop_untouched [of setHSL delta n s i] True assms
    have "waveParticles ?s i = Some p" "i < length (sizes ?s)" "i < length (particleLifetimes ?s)"
      "0 \<le> particleLifetimes ?s ! i" "0 \<le> particleLifetimes ?s ! i - delta"
      and e: "particleLifetimes ?s ! i = particleLifetimes s ! i"
        "particleLifespan ?s = particleLifespan s"
      by simp_all
    from updateParticle_live [OF this(1-5), of setHSL ?c] True e show ?thesis
      unfolding particleLoop_Suc by (simp del: jsdivr.simps)
  next
    case False
    with Suc.prems have "i < n" by simp
    from Suc.IH [OF this] updateParticle_other [of setHSL delta n ?c ?s i] False
    show ?thesis unfolding particleLoop_Suc by (simp del: jsdivr.simps)
  qed
qed

lemma updateParticles_size:
  assumes "waveParticles s i = Some p"
    and "i < maxParticles s"
    and "length (sizes s) = maxParticles s" and "length (particleLifetimes s) = maxParticles s"
    and "0 \<le> particleLifetimes s ! i" and "0 \<le> particleLifetimes s ! i - delta"
  shows "\<exists>q. waveParticles (updateParticles setHSL delta s) i = Some q
           \<and> initialSize q = initialSize p
           \<and> frameInteractions p \<le> frameInteractions q
           \<and> particleLifetimes (updateParticles setHSL delta s) ! i =
               particleLifetimes s ! i - delta
           \<and> sizes (updateParticles setHSL delta s) ! i =
               particleSize q
                 (jsdivr (Fin (particleLifetimes s ! i - delta)) (particleLifespan s))"
proof -
  have a: "i < length (sizes s)" "i < length (particleLifetimes s)"
    using assms(2-4) by simp_all
  from particleLoop_size [OF assms(1) a assms(5,6) assms(2), of setHSL]
  show ?thesis
    by (auto simp add: updateParticles_def simp del: jsdivr.simps split: prod.splits)
qed

lemma smallWave_samples:
  "sizes smallWave ! 0 = Fin 2"
  "sizes (updateParticles hslStub 0 smallWave) ! 0 = Fin 2"
  "sizes (updateParticles hslStub (3 / 20) smallWave) ! 0 = Fin 2"
  "sizes (updateParticles hslStub (3 / 2) smallWave) ! 0 = Fin (10 / 9)"
  "sizes (updateParticles hslStub (27 / 10) smallWave) ! 0 = Fin (1 / 9)"
  "sizes (updateParticles hslStub 3 smallWave) ! 0 = Fin 0"
  by code_simp+

text \<open>
  C4, evaluated on the code. The particle loop of \<open>updateWaveVisualizer\<close> writes, for a
  slot that holds a particle and is still alive after the decrement of its lifetime, the
  size \<open>initialSize * sizeFactor * fadeIn * fadeOut\<close> at the life fraction
  \<open>lifeFactor = particleLifetimes[i] / particleLifespan\<close>; the loop keeps the initial size
  of the particle and never lowers its count of frame interactions. For a positive
  lifespan this is the formula of the specification. By
  \<open>fadeIn = lifeFactor < 0.9 ? lifeFactor / 0.9 : 1.0\<close> the size is the full size at every
  life fraction from 0.9 to 1: nothing fades in. A particle of initial size 2 and
  lifespan 3 that has just been emitted has size 2 at the life fractions 1 and 0.95,
  then 10/9 at 0.5, 1/9 at 0.1 and 0 at 0.
\<close>

theorem particle_size_no_fade_in:
  assumes "waveParticles s i = Some p" and "i < maxParticles s"
    and "length (sizes s) = maxParticles s" and "length (particleLifetimes s) = maxParticles s"
    and "0 < particleLifespan s"
    and "0 \<le> particleLifetimes s ! i" and "0 \<le> particleLifetimes s ! i - delta"
  shows "(\<exists>q. waveParticles (updateParticles setHSL delta s) i = Some q
            \<and> initialSize q = initialSize p
            \<and> frameInteractions p \<le> frameInteractions q
            \<and> particleLifetimes (updateParticles setHSL delta s) ! i =
                particleLifetimes s ! i - delta
            \<and> sizes (updateParticles setHSL delta s) ! i =
                Fin (specSize (initialSize p) (frameInteractions q)
                       ((particleLifetimes s ! i - delta) / particleLifespan s))
            \<and> (9 / 10 \<le> (particleLifetimes s ! i - delta) / particleLifespan s \<longrightarrow>
                 sizes (updateParticles setHSL delta s) ! i =
                   Fin (initialSize p * (1 + (1 / 10) * of_nat (frameInteractions q)))))
       \<and> sizes smallWave ! 0 = Fin 2
       \<and> sizes (updateParticles hslStub 0 smallWave) ! 0 = Fin 2
       \<and> sizes (updateParticles hslStub (3 / 20) smallWave) ! 0 = Fin 2
       \<and> sizes (updateParticles hslStub (3 / 2) smallWave) ! 0 = Fin (10 / 9)
       \<and> sizes (updateParticles hslStub (27 / 10) smallWave) ! 0 = Fin (1 / 9)
       \<and> sizes (updateParticles hslStub 3 smallWave) ! 0 = Fin 0"
proof -
  from updateParticles_size [OF assms(1-4,6,7), of setHSL]
  obtain q where q: "waveParticles (updateParticles setHSL delta s) i = Some q"
    "initialSize q = initialSize p" "frameInteractions p \<le> frameInteractions q"
    "particleLifetimes (updateParticles setHSL delta s) ! i = particleLifetimes s ! i - delta"
    "sizes (updateParticles setHSL delta s) ! i =
       particleSize q (jsdivr (Fin (particleLifetimes s ! i - delta)) (particleLifespan s))"
    by auto
  have d: "jsdivr (Fin (particleLifetimes s ! i - delta)) (particleLifespan s) =
           Fin ((particleLifetimes s ! i - delta) / particleLifespan s)"
    using assms(5) by simp
  have z: "sizes (updateParticles setHSL delta s) ! i =
           Fin (specSize (initialSize p) (frameInteractions q)
                  ((particleLifetimes s ! i - delta) / particleLifespan s))"
    unfolding q(5) d by (simp add: particleSize_Fin q(2))
  show ?thesis
    using q(1-4) z by (simp add: smallWave_samples specSize_full)
qed

theorem particle_size_no_fade_in_witness:
  "waveParticles smallWave 0 =
     Some \<lparr> velocity = (0, 0, 0), initialSize = 2, frameInteractions = 0 \<rparr>
   \<and> particleLifetimes smallWave ! 0 = particleLifespan smallWave
   \<and> (\<exists>q. waveParticles (updateParticles hslStub (3 / 20) smallWave) 0 = Some q
          \<and> initialSize q = 2
          \<and> particleLifetimes (updateParticles hslStub (3 / 20) smallWave) ! 0 = 57 / 20
          \<and> sizes (updateParticles hslStub (3 / 20) smallWave) ! 0 =
              Fin (2 * (1 + (1 / 10) * of_nat (frameInteractions q))))
   \<and> sizes (updateParticles hslStub (3 / 20) smallWave) ! 0 = Fin 2"
proof -
  have e: "waveParticles smallWave 0 =
             Some \<lparr> velocity = (0, 0, 0), initialSize = 2, frameInteractions = 0 \<rparr>"
    "0 < maxParticles smallWave"
    "length (sizes smallWave) = maxParticles smallWave"
    "length (particleLifetimes smallWave) = maxParticles smallWave"
    "0 < particleLifespan smallWave"
    "0 \<le> particleLifetimes smallWave ! 0"
    "0 \<le> particleLifetimes smallWave ! 0 - 3 / 20"
    by (simp_all add: smallWave_def)
  have v: "particleLifetimes smallWave ! 0 = 3" "particleLifespan smallWave = 3"
    by (simp_all add: smallWave_def)
  from particle_size_no_fade_in [OF e, of hslStub]
  show ?thesis
    by (auto simp add: e(1) v)
qed

section \<open>Properties of the style controller\<close>

lemma createVisualizer_prepare:
  "createVisualizer h s = steps [createStyle h, assign render] (prepareScene h s)"
  by (simp add: createVisualizer_def prepareScene_def Let_def assign_def)

lemma prepareScene_fields:
  "currentStyle (prepareScene h s) = currentStyle s"
  "bars (prepareScene h s) = []"
  "towers (prepareScene h s) = []"
  "pointsMesh (prepareScene h s) = None"
  "shaderPlane (prepareScene h s) = None"
  "shaderMaterial (prepareScene h s) = None"
  "starfield (prepareScene h s) = None"
  "groundPlane (prepareScene h s) = None"
  "renderCount (prepareScene h s) = renderCount s"
  "renderCount (render s) = Suc (renderCount s)"
  "projection (camera (prepareScene h s)) =
     (if currentStyle s = ''shaders'' then PerspectiveCamera 75 (aspect h) (1 / 10) 1000
      else projection (camera s))"
  by (simp_all add: prepareScene_def Let_def clearScene_def restoreCamera_def setCamera_def render_def)

lemma createBarsFrom_ok:
  assumes "\<not> fails h BoxGeometry" and "\<not> fails h MeshPhongMaterial"
  shows "createBarsFrom h is s =
           Normal (s\<lparr> scene := scene s @ map Bar is, bars := bars s @ map Bar is \<rparr>)"
  using assms by (induction "is" arbitrary: s) simp_all

lemma createBars_ok:
  assumes "\<not> fails h BoxGeometry" and "\<not> fails h MeshPhongMaterial"
  shows "createBars h s =
           Normal (s\<lparr> scene := scene s @ map Bar [0..<64], bars := bars s @ map Bar [0..<64] \<rparr>)"
  unfolding createBars_def using assms by (rule createBarsFrom_ok)

lemma createVisualizer_bars:
  assumes "\<not> fails h BoxGeometry" and "\<not> fails h MeshPhongMaterial"
    and "currentStyle s = ''bars''"
  shows "createVisualizer h s =
           Normal (render ((prepareScene h s)\<lparr> scene := scene (prepareScene h s) @ map Bar [0..<64],
                                               bars := map Bar [0..<64] \<rparr>))"
  using assms
  by (simp add: createVisualizer_prepare createStyle_def prepareScene_fields createBars_ok assign_def)

lemma createVisualizer_other:
  assumes "currentStyle s \<noteq> ''bars''" and "currentStyle s \<noteq> ''points''"
    and "currentStyle s \<noteq> ''towers''" and "currentStyle s \<noteq> ''shaders''"
  shows "createVisualizer h s = Normal (render (prepareScene h s))"
  using assms
  by (simp add: createVisualizer_prepare createStyle_def prepareScene_fields assign_def)

lemma shadersBody_ok:
  assumes "\<not> fails h PlaneGeometry" and "\<not> fails h ShaderMaterial"
  shows "\<exists>s'. shadersBody h s = Normal s'
           \<and> projection (camera s') = OrthographicCamera (- 1) 1 1 (- 1) 0 1
           \<and> currentStyle s' = currentStyle s
           \<and> shaderPlane s' = Some ShaderPlane
           \<and> shaderMaterial s' \<noteq> None
           \<and> bars s' = bars s
           \<and> renderCount s' = renderCount s"
  using assms by (simp add: shadersBody_def assign_def construct_def sceneAdd_def)

lemma shadersBody_fail:
  assumes "fails h PlaneGeometry \<or> fails h ShaderMaterial"
  shows "\<exists>s'. shadersBody h s = Raised s'
           \<and> camera s' = camera s
           \<and> currentStyle s' = currentStyle s
           \<and> shaderPlane s' = None
           \<and> shaderMaterial s' = None
           \<and> bars s' = bars s \<and> scene s' = scene s
           \<and> pointsMesh s' = pointsMesh s \<and> towers s' = towers s
           \<and> renderCount s' = renderCount s"
  using assms by (auto simp add: shadersBody_def assign_def construct_def sceneAdd_def)


lemma render_fields:
  "currentStyle (render s) = currentStyle s"
  "camera (render s) = camera s"
  "bars (render s) = bars s"
  "scene (render s) = scene s"
  "towers (render s) = towers s"
  "pointsMesh (render s) = pointsMesh s"
  "shaderPlane (render s) = shaderPlane s"
  "shaderMaterial (render s) = shaderMaterial s"
  by (simp_all add: render_def)

lemma onStyleChange_bars:
  assumes "\<not> fails h BoxGeometry" and "\<not> fails h MeshPhongMaterial"
  shows "\<exists>s'. onStyleChange h ''bars'' s = Normal s'
           \<and> currentStyle s' = ''bars''
           \<and> projection (camera s') = projection (camera s)
           \<and> shaderPlane s' = None \<and> shaderMaterial s' = None
           \<and> bars s' = map Bar [0..<64]
           \<and> set (bars s') \<subseteq> set (scene s')
           \<and> renderCount s' = Suc (renderCount s)"
  using assms
  by (simp add: onStyleChange_def createVisualizer_bars render_fields prepareScene_fields)

lemma onStyleChange_other:
  assumes "v \<noteq> ''bars''" and "v \<noteq> ''points''" and "v \<noteq> ''towers''" and "v \<noteq> ''shaders''"
  shows "onStyleChange h v s = Normal (render (prepareScene h (s\<lparr> currentStyle := v \<rparr>)))"
  using assms by (simp add: onStyleChange_def createVisualizer_other)

lemma onStyleChange_shaders_ok:
  assumes "\<not> fails h PlaneGeometry" and "\<not> fails h ShaderMaterial"
  shows "\<exists>s'. onStyleChange h ''shaders'' s = Normal s'
           \<and> currentStyle s' = ''shaders''
           \<and> projection (camera s') = OrthographicCamera (- 1) 1 1 (- 1) 0 1
           \<and> shaderPlane s' = Some ShaderPlane \<and> shaderMaterial s' \<noteq> None
           \<and> bars s' = []
           \<and> renderCount s' = Suc (renderCount s)"
proof -
  let ?p = "prepareScene h (s\<lparr> currentStyle := ''shaders'' \<rparr>)"
  from shadersBody_ok [OF assms, of ?p] obtain s1 where
    b: "shadersBody h ?p = Normal s1"
    and f: "projection (camera s1) = OrthographicCamera (- 1) 1 1 (- 1) 0 1"
      "currentStyle s1 = currentStyle ?p" "shaderPlane s1 = Some ShaderPlane"
      "shaderMaterial s1 \<noteq> None" "bars s1 = bars ?p" "renderCount s1 = renderCount ?p"
    by blast
  have "onStyleChange h ''shaders'' s = Normal (render s1)"
    by (simp add: onStyleChange_def createVisualizer_prepare createStyle_def prepareScene_fields
        createShadersVisualizer_def tryCatch_def b assign_def)
  with f show ?thesis
    by (simp add: render_fields prepareScene_fields)
qed

lemma onStyleChange_shaders_fallback:
  assumes "fails h PlaneGeometry \<or> fails h ShaderMaterial"
    and "\<not> fails h BoxGeometry" and "\<not> fails h MeshPhongMaterial"
  shows "\<exists>s'. onStyleChange h ''shaders'' s = Normal s'
           \<and> currentStyle s' = ''bars''
           \<and> projection (camera s') = PerspectiveCamera 75 (aspect h) (1 / 10) 1000
           \<and> shaderPlane s' = None \<and> shaderMaterial s' = None
           \<and> bars s' = map Bar [0..<64]
           \<and> set (bars s') \<subseteq> set (scene s')
           \<and> renderCount s' = Suc (renderCount s)"
proof -
  let ?p = "prepareScene h (s\<lparr> currentStyle := ''shaders'' \<rparr>)"
  from shadersBody_fail [OF assms(1), of ?p] obtain s1 where
    b: "shadersBody h ?p = Raised s1"
    and f: "camera s1 = camera ?p" "currentStyle s1 = currentStyle ?p" "shaderPlane s1 = None"
      "shaderMaterial s1 = None" "bars s1 = bars ?p" "renderCount s1 = renderCount ?p"
    by blast
  let ?s2 = "s1\<lparr> currentStyle := ''bars'' \<rparr>"
  let ?s3 = "?s2\<lparr> scene := scene ?s2 @ map Bar [0..<64], bars := bars ?s2 @ map Bar [0..<64] \<rparr>"
  have "onStyleChange h ''shaders'' s = Normal (render ?s3)"
    using createBars_ok [OF assms(2,3), of ?s2]
    by (simp add: onStyleChange_def createVisualizer_prepare createStyle_def prepareScene_fields
        createShadersVisualizer_def tryCatch_def b assign_def)
  with f show ?thesis
    by (simp add: render_fields prepareScene_fields)
qed

lemma onStyleChange_points_fail:
  assumes "fails h BufferGeometry"
  shows "\<exists>s'. onStyleChange h ''points'' s = Raised s'
           \<and> currentStyle s' = ''points''
           \<and> bars s' = [] \<and> towers s' = [] \<and> pointsMesh s' = None
           \<and> shaderPlane s' = None"
  using assms
  by (simp add: onStyleChange_def createVisualizer_prepare createStyle_def prepareScene_fields
      createPointsVisualizer_def assign_def construct_def)


lemma selectStyle_bars:
  assumes "\<not> fails h BoxGeometry" and "\<not> fails h MeshPhongMaterial"
  shows "\<exists>s'. selectStyle h ''bars'' s = (0, s')
           \<and> currentStyle s' = ''bars''
           \<and> projection (camera s') = projection (camera s)
           \<and> shaderPlane s' = None \<and> shaderMaterial s' = None
           \<and> bars s' = map Bar [0..<64]"
proof -
  from onStyleChange_bars [OF assms, of s] obtain s1 where
    r1: "onStyleChange h ''bars'' s = Normal s1"
    and f1: "projection (camera s1) = projection (camera s)"
    by blast
  from onStyleChange_bars [OF assms, of s1] obtain s2 where
    r2: "onStyleChange h ''bars'' s1 = Normal s2"
    and f2: "currentStyle s2 = ''bars''" "projection (camera s2) = projection (camera s1)"
      "shaderPlane s2 = None" "shaderMaterial s2 = None" "bars s2 = map Bar [0..<64]"
    by blast
  show ?thesis
    using f1 f2 by (simp add: selectStyle_def Let_def r1 r2)
qed

lemma selectStyle_shaders_ok:
  assumes "\<not> fails h PlaneGeometry" and "\<not> fails h ShaderMaterial"
  shows "\<exists>s'. selectStyle h ''shaders'' s = (0, s')
           \<and> currentStyle s' = ''shaders''
           \<and> projection (camera s') = OrthographicCamera (- 1) 1 1 (- 1) 0 1
           \<and> shaderPlane s' = Some ShaderPlane \<and> shaderMaterial s' \<noteq> None"
proof -
  from onStyleChange_shaders_ok [OF assms, of s] obtain s1 where
    r1: "onStyleChange h ''shaders'' s = Normal s1"
    by blast
  from onStyleChange_shaders_ok [OF assms, of s1] obtain s2 where
    r2: "onStyleChange h ''shaders'' s1 = Normal s2"
    and f2: "currentStyle s2 = ''shaders''"
      "projection (camera s2) = OrthographicCamera (- 1) 1 1 (- 1) 0 1"
      "shaderPlane s2 = Some ShaderPlane" "shaderMaterial s2 \<noteq> None"
    by blast
  show ?thesis
    using f2 by (simp add: selectStyle_def Let_def r1 r2)
qed

lemma selectStyle_shaders_fallback:
  assumes "fails h PlaneGeometry \<or> fails h ShaderMaterial"
    and "\<not> fails h BoxGeometry" and "\<not> fails h MeshPhongMaterial"
  shows "\<exists>s'. selectStyle h ''shaders'' s = (0, s')
           \<and> currentStyle s' = ''bars''
           \<and> projection (camera s') = PerspectiveCamera 75 (aspect h) (1 / 10) 1000
           \<and> shaderPlane s' = None \<and> shaderMaterial s' = None
           \<and> bars s' = map Bar [0..<64]
           \<and> set (bars s') \<subseteq> set (scene s')"
proof -
  from onStyleChange_shaders_fallback [OF assms, of s] obtain s1 where
    r1: "onStyleChange h ''shaders'' s = Normal s1"
    by blast
  from onStyleChange_shaders_fallback [OF assms, of s1] obtain s2 where
    r2: "onStyleChange h ''shaders'' s1 = Normal s2"
    and f2: "currentStyle s2 = ''bars''"
      "projection (camera s2) = PerspectiveCamera 75 (aspect h) (1 / 10) 1000"
      "shaderPlane s2 = None" "shaderMaterial s2 = None" "bars s2 = map Bar [0..<64]"
      "set (bars s2) \<subseteq> set (scene s2)"
    by blast
  show ?thesis
    using f2 by (simp add: selectStyle_def Let_def r1 r2)
qed

lemma selectStyle_other:
  assumes "v \<noteq> ''bars''" and "v \<noteq> ''points''" and "v \<noteq> ''towers''" and "v \<noteq> ''shaders''"
  shows "selectStyle h v s =
           (0, render (prepareScene h
                 ((render (prepareScene h (s\<lparr> currentStyle := v \<rparr>)))\<lparr> currentStyle := v \<rparr>)))"
  using assms by (simp add: selectStyle_def Let_def onStyleChange_other)

lemma selectStyle_points_fail:
  assumes "fails h BufferGeometry"
  shows "\<exists>s'. selectStyle h ''points'' s = (2, s')
           \<and> currentStyle s' = ''points''
           \<and> bars s' = [] \<and> towers s' = [] \<and> pointsMesh s' = None \<and> shaderPlane s' = None"
proof -
  from onStyleChange_points_fail [OF assms, of s] obtain s1 where
    r1: "onStyleChange h ''points'' s = Raised s1"
    by blast
  from onStyleChange_points_fail [OF assms, of s1] obtain s2 where
    r2: "onStyleChange h ''points'' s1 = Raised s2"
    and f2: "currentStyle s2 = ''points''" "bars s2 = []" "towers s2 = []"
      "pointsMesh s2 = None" "shaderPlane s2 = None"
    by blast
  show ?thesis
    using f2 by (simp add: selectStyle_def Let_def r1 r2)
qed

lemma startState_bars:
  assumes "\<not> fails h BoxGeometry" and "\<not> fails h MeshPhongMaterial"
  shows "\<not> isRaised (newVisualizer h)
       \<and> currentStyle (startState h) = ''bars''
       \<and> projection (camera (startState h)) = PerspectiveCamera 75 (aspect h) (1 / 10) 1000
       \<and> bars (startState h) = map Bar [0..<64]
       \<and> shaderPlane (startState h) = None \<and> shaderMaterial (startState h) = None"
proof -
  let ?s0 = "sceneAdd SunLight (sceneAdd InitAmbientLight
               (setCamera (0, 0, 15) (0, 0, 0) (constructorFields h)))"
  have c0: "currentStyle ?s0 = ''bars''"
    "projection (camera ?s0) = PerspectiveCamera 75 (aspect h) (1 / 10) 1000"
    by (simp_all add: sceneAdd_def setCamera_def constructorFields_def)
  let ?s1 = "render ((prepareScene h ?s0)\<lparr> scene := scene (prepareScene h ?s0) @ map Bar [0..<64],
                                            bars := map Bar [0..<64] \<rparr>)"
  have r1: "createVisualizer h ?s0 = Normal ?s1"
    using assms c0(1) by (rule createVisualizer_bars)
  have c1: "currentStyle ?s1 = ''bars''"
    "projection (camera ?s1) = PerspectiveCamera 75 (aspect h) (1 / 10) 1000"
    using c0 by (simp_all add: render_fields prepareScene_fields)
  let ?s2 = "render ((prepareScene h ?s1)\<lparr> scene := scene (prepareScene h ?s1) @ map Bar [0..<64],
                                            bars := map Bar [0..<64] \<rparr>)"
  have r2: "createVisualizer h ?s1 = Normal ?s2"
    using assms c1(1) by (rule createVisualizer_bars)
  have n: "newVisualizer h = Normal ?s2"
    by (simp add: newVisualizer_def assign_def r1 r2)
  show ?thesis
    unfolding startState_def n
    using c1 by (simp add: render_fields prepareScene_fields)
qed


text \<open>
  C1, evaluated on the code. The controller starts in the bars style with the perspective
  camera of field of view 75. After the selector has been set to shaders and then back to
  bars, the style is bars and the shader plane and the shader material are no longer
  referenced, but the camera is still the orthographic camera of the shaders style:
  \<open>createVisualizer\<close> reads \<open>previousStyle\<close> after the listener has already stored the new
  style, so the branch that rebuilds the perspective camera runs on entering the shaders
  style and not on leaving it.
\<close>

theorem bars_shaders_bars_camera:
  "currentStyle (startState okHost) = ''bars''
   \<and> projection (camera (startState okHost)) = PerspectiveCamera 75 (16 / 9) (1 / 10) 1000
   \<and> currentStyle barsShadersBars = ''bars''
   \<and> projection (camera barsShadersBars) = OrthographicCamera (- 1) 1 1 (- 1) 0 1
   \<and> shaderPlane barsShadersBars = None
   \<and> shaderMaterial barsShadersBars = None"
proof -
  have ok: "\<not> fails okHost BoxGeometry" "\<not> fails okHost MeshPhongMaterial"
    "\<not> fails okHost PlaneGeometry" "\<not> fails okHost ShaderMaterial"
    by (simp_all add: okHost_def)
  have a: "aspect okHost = 16 / 9" by (simp add: okHost_def)
  from selectStyle_shaders_ok [OF ok(3,4), of "startState okHost"] obtain s1 where
    r1: "selectStyle okHost ''shaders'' (startState okHost) = (0, s1)"
    and f1: "projection (camera s1) = OrthographicCamera (- 1) 1 1 (- 1) 0 1"
    by blast
  from selectStyle_bars [OF ok(1,2), of s1] obtain s2 where
    r2: "selectStyle okHost ''bars'' s1 = (0, s2)"
    and f2: "currentStyle s2 = ''bars''" "projection (camera s2) = projection (camera s1)"
      "shaderPlane s2 = None" "shaderMaterial s2 = None"
    by blast
  have b: "barsShadersBars = s2"
    by (simp add: barsShadersBars_def r1 r2)
  show ?thesis
    using startState_bars [OF ok(1,2)] f1 f2 by (simp add: b a)
qed


lemma sceneRemove_append: "sceneRemove (xs @ ys) sc = sceneRemove ys (sceneRemove xs sc)"
  by (simp add: sceneRemove_def)

lemma sceneRemove_Nil: "sceneRemove [] sc = sc"
  by (simp add: sceneRemove_def)

lemma scene_clearScene: "scene (clearScene s) = sceneRemove (styleObjects s) (scene s)"
  by (simp add: clearScene_def styleObjects_def optList_def sceneRemove_append)

lemma styleObjects_clearScene: "styleObjects (clearScene s) = []"
  by (simp add: clearScene_def styleObjects_def optList_def)

lemma set_sceneRemove_subset: "set (sceneRemove xs sc) \<subseteq> set sc"
  unfolding sceneRemove_def
proof (induction xs arbitrary: sc)
  case Nil
  then show ?case by simp
next
  case (Cons x xs)
  have "set (fold remove1 xs (remove1 x sc)) \<subseteq> set (remove1 x sc)" by (rule Cons.IH)
  also have "\<dots> \<subseteq> set sc" by (rule set_remove1_subset)
  finally show ?case by simp
qed

lemma sceneRemove_keeps: "x \<in> set sc \<Longrightarrow> x \<notin> set xs \<Longrightarrow> x \<in> set (sceneRemove xs sc)"
  unfolding sceneRemove_def
proof (induction xs arbitrary: sc)
  case Nil
  then show ?case by simp
next
  case (Cons y ys)
  from Cons.prems have "x \<in> set (remove1 y sc)" by (cases "x = y") auto
  with Cons show ?case by simp
qed

lemma sceneRemove_distinct:
  "distinct sc \<Longrightarrow> distinct (sceneRemove xs sc) \<and> set (sceneRemove xs sc) = set sc - set xs"
  unfolding sceneRemove_def
proof (induction xs arbitrary: sc)
  case Nil
  then show ?case by simp
next
  case (Cons y ys)
  from Cons.prems have d: "distinct (remove1 y sc)" by simp
  from Cons.IH [OF d] Cons.prems show ?case by (auto simp: set_remove1_eq)
qed


lemma sceneRemove_suffix: "set xs \<inter> set ys = {} \<Longrightarrow> sceneRemove xs (ys @ xs) = ys"
  unfolding sceneRemove_def
proof (induction xs arbitrary: ys)
  case Nil
  then show ?case by simp
next
  case (Cons x xs)
  from Cons.prems have "x \<notin> set ys" and d: "set xs \<inter> set ys = {}" by auto
  then have "remove1 x (ys @ x # xs) = ys @ xs" by (simp add: remove1_append)
  with Cons.IH [OF d] show ?case by simp
qed

lemma prepareScene_other:
  assumes "currentStyle s \<noteq> ''shaders''"
  shows "scene (prepareScene h s) = sceneRemove (styleObjects s) (scene s)"
    and "camera (prepareScene h s) = (camera s)\<lparr> position := (0, 10, 20), lookAt := (0, 0, 0) \<rparr>"
    and "originalCamera (prepareScene h s) = originalCamera s"
    and "resizeHandler (prepareScene h s) = resizeHandler s"
    and "audioDataArray (prepareScene h s) = audioDataArray s"
  using assms
  by (simp_all add: prepareScene_def Let_def setCamera_def scene_clearScene)
     (simp_all add: clearScene_def)

lemma prepareScene_cleared:
  "styleObjects (prepareScene h s) = []"
  "particles (prepareScene h s) = []"
  "cloudLayers (prepareScene h s) = []"
  by (simp_all add: prepareScene_def Let_def setCamera_def restoreCamera_def clearScene_def
      styleObjects_def optList_def)

lemma render_more:
  "styleObjects (render s) = styleObjects s"
  "particles (render s) = particles s"
  "cloudLayers (render s) = cloudLayers s"
  "groundPlane (render s) = groundPlane s"
  "starfield (render s) = starfield s"
  "originalCamera (render s) = originalCamera s"
  "resizeHandler (render s) = resizeHandler s"
  "audioDataArray (render s) = audioDataArray s"
  by (simp_all add: render_def styleObjects_def)

lemma selectStyle_other_fields:
  assumes "v \<noteq> ''bars''" and "v \<noteq> ''points''" and "v \<noteq> ''towers''" and "v \<noteq> ''shaders''"
  shows "fst (selectStyle h v s) = 0"
    and "currentStyle (snd (selectStyle h v s)) = v"
    and "styleObjects (snd (selectStyle h v s)) = []"
    and "shaderMaterial (snd (selectStyle h v s)) = None"
    and "scene (snd (selectStyle h v s)) = sceneRemove (styleObjects s) (scene s)"
    and "camera (snd (selectStyle h v s)) =
           (camera s)\<lparr> position := (0, 10, 20), lookAt := (0, 0, 0) \<rparr>"
    and "originalCamera (snd (selectStyle h v s)) = originalCamera s"
    and "resizeHandler (snd (selectStyle h v s)) = resizeHandler s"
    and "audioDataArray (snd (selectStyle h v s)) = audioDataArray s"
    and "renderCount (snd (selectStyle h v s)) = renderCount s + 2"
proof -
  let ?s1 = "s\<lparr> currentStyle := v \<rparr>"
  let ?s2 = "(render (prepareScene h ?s1))\<lparr> currentStyle := v \<rparr>"
  have sel: "selectStyle h v s = (0, render (prepareScene h ?s2))"
    using assms by (rule selectStyle_other)
  have n1: "currentStyle ?s1 \<noteq> ''shaders''" and n2: "currentStyle ?s2 \<noteq> ''shaders''"
    using assms(4) by simp_all
  have o1: "styleObjects ?s1 = styleObjects s" "scene ?s1 = scene s" "camera ?s1 = camera s"
    by (simp_all add: styleObjects_def)
  have o2: "styleObjects ?s2 = []"
    "scene ?s2 = sceneRemove (styleObjects s) (scene s)"
    "camera ?s2 = (camera s)\<lparr> position := (0, 10, 20), lookAt := (0, 0, 0) \<rparr>"
    "originalCamera ?s2 = originalCamera s" "resizeHandler ?s2 = resizeHandler s"
    "audioDataArray ?s2 = audioDataArray s" "renderCount ?s2 = Suc (renderCount s)"
    using prepareScene_other [OF n1, of h] prepareScene_cleared(1) [of h ?s1] o1
    by (simp_all add: styleObjects_def render_fields render_more prepareScene_fields)
  show "fst (selectStyle h v s) = 0" by (simp add: sel)
  show "currentStyle (snd (selectStyle h v s)) = v"
    by (simp add: sel render_fields prepareScene_fields)
  show "styleObjects (snd (selectStyle h v s)) = []"
    by (simp add: sel render_more prepareScene_cleared)
  show "shaderMaterial (snd (selectStyle h v s)) = None"
    by (simp add: sel render_fields prepareScene_fields)
  show "scene (snd (selectStyle h v s)) = sceneRemove (styleObjects s) (scene s)"
    unfolding sel snd_conv render_fields prepareScene_other(1) [OF n2] o2
    by (simp add: sceneRemove_Nil)
  show "camera (snd (selectStyle h v s)) =
          (camera s)\<lparr> position := (0, 10, 20), lookAt := (0, 0, 0) \<rparr>"
    unfolding sel snd_conv render_fields prepareScene_other(2) [OF n2] o2 by simp
  show "originalCamera (snd (selectStyle h v s)) = originalCamera s"
    unfolding sel snd_conv render_more prepareScene_other(3) [OF n2] o2 by simp
  show "resizeHandler (snd (selectStyle h v s)) = resizeHandler s"
    unfolding sel snd_conv render_more prepareScene_other(4) [OF n2] o2 by simp
  show "audioDataArray (snd (selectStyle h v s)) = audioDataArray s"
    unfolding sel snd_conv render_more prepareScene_other(5) [OF n2] o2 by simp
  show "renderCount (snd (selectStyle h v s)) = renderCount s + 2"
    unfolding sel snd_conv using o2(7) by (simp add: prepareScene_fields)
qed


lemma startState_scene:
  assumes "\<not> fails h BoxGeometry" and "\<not> fails h MeshPhongMaterial"
  shows "scene (startState h) = [InitAmbientLight, SunLight] @ map Bar [0..<64]"
    and "styleObjects (startState h) = map Bar [0..<64]"
proof -
  let ?s0 = "sceneAdd SunLight (sceneAdd InitAmbientLight
               (setCamera (0, 0, 15) (0, 0, 0) (constructorFields h)))"
  have c0: "currentStyle ?s0 = ''bars''" "scene ?s0 = [InitAmbientLight, SunLight]"
    "styleObjects ?s0 = []"
    by (simp_all add: sceneAdd_def setCamera_def constructorFields_def styleObjects_def optList_def)
  let ?s1 = "render ((prepareScene h ?s0)\<lparr> scene := scene (prepareScene h ?s0) @ map Bar [0..<64],
                                            bars := map Bar [0..<64] \<rparr>)"
  have r1: "createVisualizer h ?s0 = Normal ?s1"
    using assms c0(1) by (rule createVisualizer_bars)
  have n0: "currentStyle ?s0 \<noteq> ''shaders''" using c0(1) by simp
  have p0: "scene (prepareScene h ?s0) = [InitAmbientLight, SunLight]"
    unfolding prepareScene_other(1) [OF n0] c0 by (simp add: sceneRemove_Nil)
  have so: "\<And>t xs. styleObjects (t\<lparr> scene := xs, bars := map Bar [0..<64] \<rparr>) =
                    map Bar [0..<64] @ particles t @ towers t @ optList (groundPlane t)
                      @ cloudLayers t @ optList (starfield t) @ optList (pointsMesh t)
                      @ optList (shaderPlane t)"
    by (simp add: styleObjects_def)
  have c1: "currentStyle ?s1 = ''bars''"
    "scene ?s1 = [InitAmbientLight, SunLight] @ map Bar [0..<64]"
    "styleObjects ?s1 = map Bar [0..<64]"
    using c0(1) p0
    by (simp_all add: render_fields render_more so prepareScene_fields prepareScene_cleared
        optList_def)
  let ?s2 = "render ((prepareScene h ?s1)\<lparr> scene := scene (prepareScene h ?s1) @ map Bar [0..<64],
                                            bars := map Bar [0..<64] \<rparr>)"
  have r2: "createVisualizer h ?s1 = Normal ?s2"
    using assms c1(1) by (rule createVisualizer_bars)
  have n1: "currentStyle ?s1 \<noteq> ''shaders''" using c1(1) by simp
  have d: "set (map Bar [0..<64]) \<inter> set [InitAmbientLight, SunLight] = {}" by auto
  have p1: "scene (prepareScene h ?s1) = [InitAmbientLight, SunLight]"
    unfolding prepareScene_other(1) [OF n1] c1 by (rule sceneRemove_suffix [OF d])
  have n: "newVisualizer h = Normal ?s2"
    by (simp add: newVisualizer_def assign_def r1 r2)
  show "scene (startState h) = [InitAmbientLight, SunLight] @ map Bar [0..<64]"
    unfolding startState_def n using p1 by (simp add: render_fields)
  show "styleObjects (startState h) = map Bar [0..<64]"
    unfolding startState_def n
    by (simp add: render_more so prepareScene_fields prepareScene_cleared optList_def)
qed

lemma onStyleChange_points_ok:
  assumes "\<not> fails h BufferGeometry" and "\<not> fails h ShaderMaterial"
  shows "\<exists>s'. onStyleChange h ''points'' s = Normal s'
           \<and> currentStyle s' = ''points''
           \<and> styleObjects s' = [PointsCloud]
           \<and> PointsAmbientLight \<in> set (scene s')
           \<and> PointsDirectionalLight \<in> set (scene s')"
  using assms
  by (simp add: onStyleChange_def createVisualizer_prepare createStyle_def prepareScene_fields
      createPointsVisualizer_def assign_def construct_def sceneAdd_def setCamera_def
      render_fields render_more styleObjects_def optList_def prepareScene_cleared)


lemma selectStyle_points_ok:
  assumes "\<not> fails h BufferGeometry" and "\<not> fails h ShaderMaterial"
  shows "\<exists>s'. selectStyle h ''points'' s = (0, s')
           \<and> currentStyle s' = ''points''
           \<and> styleObjects s' = [PointsCloud]
           \<and> PointsAmbientLight \<in> set (scene s')
           \<and> PointsDirectionalLight \<in> set (scene s')"
proof -
  from onStyleChange_points_ok [OF assms, of s] obtain s1 where
    r1: "onStyleChange h ''points'' s = Normal s1"
    by blast
  from onStyleChange_points_ok [OF assms, of s1] obtain s2 where
    r2: "onStyleChange h ''points'' s1 = Normal s2"
    and f2: "currentStyle s2 = ''points''" "styleObjects s2 = [PointsCloud]"
      "PointsAmbientLight \<in> set (scene s2)" "PointsDirectionalLight \<in> set (scene s2)"
    by blast
  show ?thesis
    using f2 by (simp add: selectStyle_def Let_def r1 r2)
qed

lemma onStyleChange_towers_fail:
  assumes "fails h BufferGeometry"
  shows "\<exists>s'. onStyleChange h ''towers'' s = Raised s'
           \<and> currentStyle s' = ''towers''
           \<and> bars s' = [] \<and> towers s' = [] \<and> pointsMesh s' = None \<and> shaderPlane s' = None"
  using assms
  by (simp add: onStyleChange_def createVisualizer_prepare createStyle_def prepareScene_fields
      createTowersVisualizer_def createStarfield_def assign_def construct_def sceneAdd_def)

lemma selectStyle_towers_fail:
  assumes "fails h BufferGeometry"
  shows "\<exists>s'. selectStyle h ''towers'' s = (2, s')
           \<and> currentStyle s' = ''towers''
           \<and> bars s' = [] \<and> towers s' = [] \<and> pointsMesh s' = None \<and> shaderPlane s' = None"
proof -
  from onStyleChange_towers_fail [OF assms, of s] obtain s1 where
    r1: "onStyleChange h ''towers'' s = Raised s1"
    by blast
  from onStyleChange_towers_fail [OF assms, of s1] obtain s2 where
    r2: "onStyleChange h ''towers'' s1 = Raised s2"
    and f2: "currentStyle s2 = ''towers''" "bars s2 = []" "towers s2 = []"
      "pointsMesh s2 = None" "shaderPlane s2 = None"
    by blast
  show ?thesis
    using f2 by (simp add: selectStyle_def Let_def r1 r2)
qed

text \<open>
  C8, as the code has it. The listener of the style selector does not validate its input
  and raises no error. For an identifier that is none of bars, points, towers and shaders,
  the identifier becomes the current style and no style is constructed. \<open>clearScene\<close>
  takes the objects the controller holds a reference to (bars, particles, towers, ground
  plane, cloud layers, starfield, point cloud, shader plane) out of the scene and resets
  these references and the shader material; every other object of the scene, such as a
  light, stays. The camera object stays, with its projection, and only its pose is reset;
  the stored original camera, the resize handler and the audio array stay as well. Each of
  the two listeners renders once.
\<close>

theorem invalid_style_is_stored:
  assumes "v \<notin> {''bars'', ''points'', ''towers'', ''shaders''}"
  shows "fst (selectStyle h v s) = 0
       \<and> currentStyle (snd (selectStyle h v s)) = v
       \<and> bars (snd (selectStyle h v s)) = []
       \<and> towers (snd (selectStyle h v s)) = []
       \<and> pointsMesh (snd (selectStyle h v s)) = None
       \<and> shaderPlane (snd (selectStyle h v s)) = None
       \<and> shaderMaterial (snd (selectStyle h v s)) = None
       \<and> renderCount (snd (selectStyle h v s)) = renderCount s + 2
       \<and> styleObjects (snd (selectStyle h v s)) = []
       \<and> scene (snd (selectStyle h v s)) = sceneRemove (styleObjects s) (scene s)
       \<and> set (scene (snd (selectStyle h v s))) \<subseteq> set (scene s)
       \<and> (x \<in> set (scene s) \<and> x \<notin> set (styleObjects s) \<longrightarrow>
            x \<in> set (scene (snd (selectStyle h v s))))
       \<and> (distinct (scene s) \<longrightarrow>
            set (scene (snd (selectStyle h v s))) = set (scene s) - set (styleObjects s))
       \<and> camera (snd (selectStyle h v s)) =
           (camera s)\<lparr> position := (0, 10, 20), lookAt := (0, 0, 0) \<rparr>
       \<and> originalCamera (snd (selectStyle h v s)) = originalCamera s
       \<and> resizeHandler (snd (selectStyle h v s)) = resizeHandler s
       \<and> audioDataArray (snd (selectStyle h v s)) = audioDataArray s"
proof -
  from assms have v: "v \<noteq> ''bars''" "v \<noteq> ''points''" "v \<noteq> ''towers''" "v \<noteq> ''shaders''"
    by auto
  note f = selectStyle_other_fields [OF v, of h s]
  have old: "bars (snd (selectStyle h v s)) = []" "towers (snd (selectStyle h v s)) = []"
    "pointsMesh (snd (selectStyle h v s)) = None" "shaderPlane (snd (selectStyle h v s)) = None"
    using v by (simp_all add: selectStyle_other render_fields prepareScene_fields)
  show ?thesis
    using f old set_sceneRemove_subset [of "styleObjects s" "scene s"]
      sceneRemove_keeps [of x "scene s" "styleObjects s"]
      sceneRemove_distinct [of "scene s" "styleObjects s"]
    by simp
qed

text \<open>
  C8 as stated fails: the identifier \<open>wave\<close> is accepted without an error, the style
  changes from bars to \<open>wave\<close>, and the 64 bars are gone.
\<close>

theorem invalid_style_counterexample:
  "currentStyle (startState okHost) = ''bars''
   \<and> bars (startState okHost) = map Bar [0..<64]
   \<and> fst (selectStyle okHost ''wave'' (startState okHost)) = 0
   \<and> currentStyle (snd (selectStyle okHost ''wave'' (startState okHost))) = ''wave''
   \<and> bars (snd (selectStyle okHost ''wave'' (startState okHost))) = []"
proof -
  have ok: "\<not> fails okHost BoxGeometry" "\<not> fails okHost MeshPhongMaterial"
    by (simp_all add: okHost_def)
  have w: "''wave'' \<noteq> ''bars''" "''wave'' \<noteq> ''points''" "''wave'' \<noteq> ''towers''"
    "''wave'' \<noteq> ''shaders''"
    by simp_all
  show ?thesis
    using startState_bars [OF ok]
    by (simp add: selectStyle_other [OF w] render_fields prepareScene_fields)
qed

theorem invalid_style_is_stored_witness:
  "fst (selectStyle okHost ''exhibition'' (startState okHost)) = 0
   \<and> currentStyle (snd (selectStyle okHost ''exhibition'' (startState okHost))) = ''exhibition''
   \<and> bars (snd (selectStyle okHost ''exhibition'' (startState okHost))) = []
   \<and> scene (startState okHost) = [InitAmbientLight, SunLight] @ map Bar [0..<64]
   \<and> set (scene (snd (selectStyle okHost ''exhibition'' (startState okHost)))) =
       {InitAmbientLight, SunLight}
   \<and> projection (camera (snd (selectStyle okHost ''exhibition''
         (snd (selectStyle okHost ''shaders'' (startState okHost)))))) =
       OrthographicCamera (- 1) 1 1 (- 1) 0 1
   \<and> PointsAmbientLight \<in> set (scene (snd (selectStyle okHost ''exhibition''
         (snd (selectStyle okHost ''points'' (startState okHost))))))"
proof -
  have ok: "\<not> fails okHost BoxGeometry" "\<not> fails okHost MeshPhongMaterial"
    "\<not> fails okHost PlaneGeometry" "\<not> fails okHost ShaderMaterial"
    "\<not> fails okHost BufferGeometry"
    by (simp_all add: okHost_def)
  have v: "''exhibition'' \<notin> {''bars'', ''points'', ''towers'', ''shaders''}" by simp
  note st = startState_scene [OF ok(1,2)]
  have d: "distinct (scene (startState okHost))"
    unfolding st by (auto simp: distinct_map inj_on_def)
  have e: "set (scene (startState okHost)) - set (styleObjects (startState okHost)) =
           {InitAmbientLight, SunLight}"
    unfolding st by auto
  from selectStyle_shaders_ok [OF ok(3,4), of "startState okHost"] obtain s1 where
    r1: "selectStyle okHost ''shaders'' (startState okHost) = (0, s1)"
    and f1: "projection (camera s1) = OrthographicCamera (- 1) 1 1 (- 1) 0 1"
    by blast
  from selectStyle_points_ok [OF ok(5,4), of "startState okHost"] obtain s2 where
    r2: "selectStyle okHost ''points'' (startState okHost) = (0, s2)"
    and f2: "styleObjects s2 = [PointsCloud]" "PointsAmbientLight \<in> set (scene s2)"
    by blast
  note t0 = invalid_style_is_stored
    [OF v, where h = okHost and s = "startState okHost" and x = SunLight]
  from t0 have a1: "fst (selectStyle okHost ''exhibition'' (startState okHost)) = 0"
    by (elim conjE)
  from t0 have a2:
    "currentStyle (snd (selectStyle okHost ''exhibition'' (startState okHost))) = ''exhibition''"
    by (elim conjE)
  from t0 have a3: "bars (snd (selectStyle okHost ''exhibition'' (startState okHost))) = []"
    by (elim conjE)
  from t0 have "distinct (scene (startState okHost)) \<longrightarrow>
      set (scene (snd (selectStyle okHost ''exhibition'' (startState okHost)))) =
        set (scene (startState okHost)) - set (styleObjects (startState okHost))"
    by (elim conjE)
  with d e have a4:
    "set (scene (snd (selectStyle okHost ''exhibition'' (startState okHost)))) =
       {InitAmbientLight, SunLight}"
    by simp
  from invalid_style_is_stored [OF v, where h = okHost and s = s1 and x = SunLight]
  have "camera (snd (selectStyle okHost ''exhibition'' s1)) =
          (camera s1)\<lparr> position := (0, 10, 20), lookAt := (0, 0, 0) \<rparr>"
    by (elim conjE)
  with f1 have b: "projection (camera (snd (selectStyle okHost ''exhibition'' s1))) =
                   OrthographicCamera (- 1) 1 1 (- 1) 0 1"
    by simp
  from invalid_style_is_stored [OF v, where h = okHost and s = s2 and x = PointsAmbientLight]
  have "PointsAmbientLight \<in> set (scene s2) \<and> PointsAmbientLight \<notin> set (styleObjects s2) \<longrightarrow>
          PointsAmbientLight \<in> set (scene (snd (selectStyle okHost ''exhibition'' s2)))"
    by (elim conjE)
  with f2 have c: "PointsAmbientLight \<in> set (scene (snd (selectStyle okHost ''exhibition'' s2)))"
    by simp
  show ?thesis
    using a1 a2 a3 a4 b c st(1) by (simp add: r1 r2)
qed

text \<open>
  C9, evaluated on the code. On a host where the buffer geometry cannot be constructed,
  selecting the points style or the towers style ends both listeners with an uncaught
  exception: the style stays points or towers, the bars are gone, and neither the point
  cloud nor a tower exists, so no visualization is active. Only \<open>createShadersVisualizer\<close> has the
  handler that falls back to bars: on a host where the shader material cannot be
  constructed, selecting the shaders style raises nothing and ends in the bars style with
  its 64 bars.
\<close>

theorem construction_failure_not_recovered:
  "bars (startState noBufferHost) = map Bar [0..<64]
   \<and> fst (selectStyle noBufferHost ''points'' (startState noBufferHost)) = 2
   \<and> currentStyle (snd (selectStyle noBufferHost ''points'' (startState noBufferHost))) = ''points''
   \<and> bars (snd (selectStyle noBufferHost ''points'' (startState noBufferHost))) = []
   \<and> pointsMesh (snd (selectStyle noBufferHost ''points'' (startState noBufferHost))) = None
   \<and> fst (selectStyle noBufferHost ''towers'' (startState noBufferHost)) = 2
   \<and> currentStyle (snd (selectStyle noBufferHost ''towers'' (startState noBufferHost))) = ''towers''
   \<and> bars (snd (selectStyle noBufferHost ''towers'' (startState noBufferHost))) = []
   \<and> towers (snd (selectStyle noBufferHost ''towers'' (startState noBufferHost))) = []
   \<and> fst (selectStyle noShaderHost ''shaders'' (startState noShaderHost)) = 0
   \<and> currentStyle (snd (selectStyle noShaderHost ''shaders'' (startState noShaderHost))) = ''bars''
   \<and> bars (snd (selectStyle noShaderHost ''shaders'' (startState noShaderHost))) = map Bar [0..<64]"
proof -
  have f: "fails noBufferHost BufferGeometry"
    and ok: "\<not> fails noBufferHost BoxGeometry" "\<not> fails noBufferHost MeshPhongMaterial"
    by (simp_all add: noBufferHost_def)
  have g: "fails noShaderHost PlaneGeometry \<or> fails noShaderHost ShaderMaterial"
    and ok': "\<not> fails noShaderHost BoxGeometry" "\<not> fails noShaderHost MeshPhongMaterial"
    by (simp_all add: noShaderHost_def)
  from selectStyle_points_fail [OF f, of "startState noBufferHost"] obtain s1 where
    "selectStyle noBufferHost ''points'' (startState noBufferHost) = (2, s1)"
    and "currentStyle s1 = ''points''" and "bars s1 = []" and "pointsMesh s1 = None"
    by blast
  moreover from selectStyle_towers_fail [OF f, of "startState noBufferHost"] obtain s2 where
    "selectStyle noBufferHost ''towers'' (startState noBufferHost) = (2, s2)"
    and "currentStyle s2 = ''towers''" and "bars s2 = []" and "towers s2 = []"
    by blast
  moreover from selectStyle_shaders_fallback [OF g ok', of "startState noShaderHost"] obtain s3 where
    "selectStyle noShaderHost ''shaders'' (startState noShaderHost) = (0, s3)"
    and "currentStyle s3 = ''bars''" and "bars s3 = map Bar [0..<64]"
    by blast
  ultimately show ?thesis
    using startState_bars [OF ok] by simp
qed

end
